theory Spec2Isabelle
  imports Main "HOL-Library.Word"
begin

section \<open>The image-generation adapter of mcp-nano-banana (src/src/index.ts)\<close>

text \<open>
  A shallow embedding of \<^verbatim>\<open>generateImage\<close> and of the \<^verbatim>\<open>CallToolRequestSchema\<close>
  handler. JavaScript strings are \<open>string\<close>; an optional property or argument is an
  \<open>option\<close>; a thrown \<^verbatim>\<open>Error\<close> is \<open>Inl\<close> of its message; the process environment,
  the file system and the remote API are fields of an explicit \<open>world\<close> that every
  effectful operation takes and returns.

  The parsed JSON body of a response is taken at the type the \<^verbatim>\<open>GeminiResponse\<close> interface
  declares for it, and \<^verbatim>\<open>response.text()\<close> is taken to resolve.
\<close>

subsection \<open>JavaScript truthiness of strings\<close>

text \<open>
  \<^verbatim>\<open>if (s)\<close>, \<^verbatim>\<open>!s\<close> and \<^verbatim>\<open>s || d\<close> on a value of type \<^verbatim>\<open>string | undefined\<close>:
  \<^verbatim>\<open>undefined\<close> and the empty string are falsy, every other string is truthy.
\<close>

definition truthy :: "string option \<Rightarrow> bool" where
  "truthy v = (case v of None \<Rightarrow> False | Some s \<Rightarrow> s \<noteq> [])"

definition or_else :: "string option \<Rightarrow> string \<Rightarrow> string" where
  "or_else v d = (case v of None \<Rightarrow> d | Some s \<Rightarrow> if s \<noteq> [] then s else d)"

subsection \<open>Data model\<close>

type_synonym bytes = "8 word list"

text \<open>\<^verbatim>\<open>inlineData: { mimeType: string; data: string }\<close>, in requests and in responses.\<close>

record InlineData =
  inline_mimeType :: string
  inline_data :: string

text \<open>
  \<^verbatim>\<open>interface InputImage { data: string; mimeType: string }\<close>. The code reads
  \<^verbatim>\<open>image.mimeType || "image/png"\<close>, so the field is modelled as one that may be missing.
\<close>

record InputImage =
  img_data :: string
  img_mimeType :: "string option"

text \<open>The elements of the outbound \<^verbatim>\<open>parts\<close> array: \<^verbatim>\<open>{ text } | { inlineData }\<close>.\<close>

datatype Part = TextPart string | InlineDataPart InlineData

text \<open>\<^verbatim>\<open>interface GeminiResponse\<close>, every optional property an \<open>option\<close>.\<close>

record ResponsePart =
  part_text :: "string option"
  part_inlineData :: "InlineData option"

record Content =
  content_parts :: "ResponsePart list option"

record Candidate =
  cand_content :: "Content option"

record ApiError =
  message :: string

record GeminiResponse =
  candidates :: "Candidate list option"
  error :: "ApiError option"

text \<open>
  The object \<^verbatim>\<open>generateImage\<close> resolves to; its \<^verbatim>\<open>text\<close> property is \<open>result_text\<close>
  here.
\<close>

record GenResult =
  result_text :: "string option"
  imageData :: "string option"
  mimeType :: "string option"
  modelUsed :: string
  fallback :: bool

subsection \<open>The remote API\<close>

record RequestContent =
  parts :: "Part list"

record GenerationConfig =
  responseModalities :: "string list"

text \<open>The object given to \<^verbatim>\<open>JSON.stringify\<close> for the request body.\<close>

record RequestBody =
  contents :: "RequestContent list"
  generationConfig :: GenerationConfig

record request =
  url :: string
  http_method :: string
  headers :: "(string \<times> string) list"
  body :: RequestBody

text \<open>
  What the code observes of a \<^verbatim>\<open>Response\<close>: \<^verbatim>\<open>status\<close>, the outcome of \<^verbatim>\<open>text()\<close>, and
  the outcome of \<^verbatim>\<open>json()\<close> (\<open>Inl\<close> when the body does not parse).
\<close>

record http_response =
  status :: nat
  body_text :: string
  body_json :: "string + GeminiResponse"

text \<open>\<^verbatim>\<open>Response.ok\<close> is defined by the Fetch standard as a status in the range 200 to 299.\<close>

definition ok :: "http_response \<Rightarrow> bool" where
  "ok response = (200 \<le> status response \<and> status response \<le> 299)"

subsection \<open>The world\<close>

text \<open>
  \<^item> \<open>env_GEMINI_API_KEY\<close>: \<^verbatim>\<open>process.env.GEMINI_API_KEY\<close>;
  \<^item> \<open>fs\<close>: what \<^verbatim>\<open>readFile\<close> gives for a path (\<open>Inl\<close> is the rejection's message);
  \<^item> \<open>write_error\<close>: the message \<^verbatim>\<open>writeFile\<close> rejects with, if it does;
  \<^item> \<open>written\<close>: the writes performed so far, oldest first;
  \<^item> \<open>net\<close>: the outcome of the \<open>n\<close>-th \<^verbatim>\<open>fetch\<close> for a given request (\<open>Inl\<close> is a
    rejected promise);
  \<^item> \<open>sent\<close>: the requests issued so far, oldest first.
\<close>

record world =
  env_GEMINI_API_KEY :: "string option"
  fs :: "string \<Rightarrow> string + bytes"
  write_error :: "string \<Rightarrow> bytes \<Rightarrow> string option"
  written :: "(string \<times> bytes) list"
  net :: "nat \<Rightarrow> request \<Rightarrow> string + http_response"
  sent :: "request list"

definition fetch :: "world \<Rightarrow> request \<Rightarrow> (string + http_response) \<times> world" where
  "fetch w req = (net w (length (sent w)) req, w\<lparr>sent := sent w @ [req]\<rparr>)"

subsection \<open>Constants\<close>

definition GEMINI_API_URL :: string where
  "GEMINI_API_URL = ''https://generativelanguage.googleapis.com/v1beta/models''"

definition pro_model :: string where
  "pro_model = ''gemini-3-pro-image-preview''"

definition flash_model :: string where
  "flash_model = ''gemini-2.5-flash-image''"

subsection \<open>Decimal rendering of a number in a template literal\<close>

function show_nat :: "nat \<Rightarrow> string" where
  "show_nat n =
     (if n < 10 then [''0123456789'' ! n]
      else show_nat (n div 10) @ [''0123456789'' ! (n mod 10)])"
  by pat_completeness auto
termination
  by (relation "measure (\<lambda>n. n)") auto

declare show_nat.simps [simp del]

subsection \<open>generateImage\<close>

text \<open>Lines 114 to 126: the prompt first, then one \<^verbatim>\<open>push\<close> per image.\<close>

definition image_part :: "InputImage \<Rightarrow> Part" where
  "image_part img =
     InlineDataPart \<lparr>inline_mimeType = or_else (img_mimeType img) ''image/png'',
                     inline_data = img_data img\<rparr>"

fun push_images :: "Part list \<Rightarrow> InputImage list \<Rightarrow> Part list" where
  "push_images ps [] = ps"
| "push_images ps (img # images) = push_images (ps @ [image_part img]) images"

definition build_parts :: "string \<Rightarrow> InputImage list \<Rightarrow> Part list" where
  "build_parts prompt images = push_images [TextPart prompt] images"

text \<open>Lines 128 to 145: the request \<^verbatim>\<open>makeRequest(currentModel)\<close> hands to \<^verbatim>\<open>fetch\<close>.\<close>

definition makeRequest :: "string \<Rightarrow> Part list \<Rightarrow> string \<Rightarrow> request" where
  "makeRequest apiKey ps currentModel =
     \<lparr>url = GEMINI_API_URL @ ''/'' @ currentModel @ '':generateContent'',
      http_method = ''POST'',
      headers = [(''Content-Type'', ''application/json''), (''x-goog-api-key'', apiKey)],
      body = \<lparr>contents = [\<lparr>parts = ps\<rparr>],
              generationConfig = \<lparr>responseModalities = [''TEXT'', ''IMAGE'']\<rparr>\<rparr>\<rparr>"

text \<open>Line 172: \<^verbatim>\<open>data.candidates?.[0]?.content?.parts\<close>.\<close>

definition responseParts :: "GeminiResponse \<Rightarrow> ResponsePart list option" where
  "responseParts d =
     (case candidates d of
        None \<Rightarrow> None
      | Some [] \<Rightarrow> None
      | Some (c # _) \<Rightarrow>
          (case cand_content c of None \<Rightarrow> None | Some ct \<Rightarrow> content_parts ct))"

text \<open>Lines 182 to 190: the loop over the response parts, updating \<^verbatim>\<open>result\<close>.\<close>

definition scan_part :: "GenResult \<Rightarrow> ResponsePart \<Rightarrow> GenResult" where
  "scan_part r p =
     (let r1 = (if truthy (part_text p) then r\<lparr>result_text := part_text p\<rparr> else r)
      in case part_inlineData p of
           None \<Rightarrow> r1
         | Some i \<Rightarrow> r1\<lparr>imageData := Some (inline_data i), mimeType := Some (inline_mimeType i)\<rparr>)"

fun scan_parts :: "GenResult \<Rightarrow> ResponsePart list \<Rightarrow> GenResult" where
  "scan_parts r [] = r"
| "scan_parts r (p # ps) = scan_parts (scan_part r p) ps"

text \<open>Lines 161 to 192: what is done with the response that is kept.\<close>

definition handle_response :: "string \<Rightarrow> bool \<Rightarrow> http_response \<Rightarrow> string + GenResult" where
  "handle_response usedModel didFallback response =
     (if \<not> ok response then
        Inl (''Gemini API error: '' @ show_nat (status response) @ '' - '' @ body_text response)
      else
        case body_json response of
          Inl e \<Rightarrow> Inl e
        | Inr d \<Rightarrow>
            (case error d of
               Some e \<Rightarrow> Inl (''Gemini API error: '' @ message e)
             | None \<Rightarrow>
                 (case responseParts d of
                    None \<Rightarrow> Inl ''No content generated''
                  | Some ps \<Rightarrow>
                      if ps = [] then Inl ''No content generated''
                      else Inr (scan_parts
                                  \<lparr>result_text = None, imageData = None, mimeType = None,
                                   modelUsed = usedModel, fallback = didFallback\<rparr> ps))))"

text \<open>
  Lines 147 to 159: the first request and, under the fallback test, the second. The result
  is the source's \<^verbatim>\<open>response\<close>, \<^verbatim>\<open>usedModel\<close> and \<^verbatim>\<open>didFallback\<close> as they stand at
  line 160; a rejected \<^verbatim>\<open>fetch\<close> ends the call.
\<close>

definition send_with_fallback ::
  "world \<Rightarrow> string \<Rightarrow> Part list \<Rightarrow> string
     \<Rightarrow> (string + http_response \<times> string \<times> bool) \<times> world" where
  "send_with_fallback w apiKey ps model =
     (case fetch w (makeRequest apiKey ps model) of
        (Inl e, w1) \<Rightarrow> (Inl e, w1)
      | (Inr response, w1) \<Rightarrow>
          (if \<not> ok response \<and> model = pro_model
              \<and> (status response = 429 \<or> status response = 403 \<or> status response = 402)
           then
             (case fetch w1 (makeRequest apiKey ps flash_model) of
                (Inl e, w2) \<Rightarrow> (Inl e, w2)
              | (Inr response2, w2) \<Rightarrow> (Inr (response2, flash_model, True), w2))
           else (Inr (response, model, False), w1)))"

text \<open>
  Lines 102 to 193. The \<^verbatim>\<open>model\<close>, \<^verbatim>\<open>aspectRatio\<close> and \<^verbatim>\<open>outputFormat\<close> parameters have
  defaults, which JavaScript applies when the argument is \<^verbatim>\<open>undefined\<close>; the last two are
  not read by the body.
\<close>

definition model_arg :: "string option \<Rightarrow> string" where
  "model_arg m = (case m of None \<Rightarrow> pro_model | Some s \<Rightarrow> s)"

definition generateImage ::
  "world \<Rightarrow> string \<Rightarrow> InputImage list \<Rightarrow> string option \<Rightarrow> string option \<Rightarrow> string option
     \<Rightarrow> (string + GenResult) \<times> world" where
  "generateImage w prompt images model aspectRatio outputFormat =
     (case env_GEMINI_API_KEY w of
        None \<Rightarrow> (Inl ''GEMINI_API_KEY environment variable is not set'', w)
      | Some apiKey \<Rightarrow>
          if apiKey = [] then (Inl ''GEMINI_API_KEY environment variable is not set'', w)
          else
            (case send_with_fallback w apiKey (build_parts prompt images) (model_arg model) of
               (Inl e, w1) \<Rightarrow> (Inl e, w1)
             | (Inr (response, usedModel, didFallback), w1) \<Rightarrow>
                 (handle_response usedModel didFallback response, w1)))"

subsection \<open>The responses a call receives\<close>

text \<open>
  What the remote API answers to the first request of a call, if the call gets that far
  and the request is answered.
\<close>

definition first_response ::
  "world \<Rightarrow> string \<Rightarrow> InputImage list \<Rightarrow> string option \<Rightarrow> http_response option" where
  "first_response w prompt images model =
     (case env_GEMINI_API_KEY w of
        None \<Rightarrow> None
      | Some apiKey \<Rightarrow>
          if apiKey = [] then None
          else
            (case fst (fetch w (makeRequest apiKey (build_parts prompt images) (model_arg model))) of
               Inl e \<Rightarrow> None
             | Inr response \<Rightarrow> Some response))"

text \<open>
  What the remote API answers to a second request of the same call, sent with the flash
  model, if that request is answered.
\<close>

definition retry_response ::
  "world \<Rightarrow> string \<Rightarrow> InputImage list \<Rightarrow> string option \<Rightarrow> http_response option" where
  "retry_response w prompt images model =
     (case env_GEMINI_API_KEY w of
        None \<Rightarrow> None
      | Some apiKey \<Rightarrow>
          (case fetch w (makeRequest apiKey (build_parts prompt images) (model_arg model)) of
             (_, w1) \<Rightarrow>
               (case fst (fetch w1 (makeRequest apiKey (build_parts prompt images) flash_model)) of
                  Inl e \<Rightarrow> None
                | Inr response \<Rightarrow> Some response)))"

text \<open>The response a call ends up with at line 160: the first one, or the retry's.\<close>

definition final_response ::
  "world \<Rightarrow> string \<Rightarrow> InputImage list \<Rightarrow> string option \<Rightarrow> http_response option" where
  "final_response w prompt images model =
     (case env_GEMINI_API_KEY w of
        None \<Rightarrow> None
      | Some apiKey \<Rightarrow>
          if apiKey = [] then None
          else
            (case fst (send_with_fallback w apiKey (build_parts prompt images) (model_arg model)) of
               Inl e \<Rightarrow> None
             | Inr (response, _, _) \<Rightarrow> Some response))"

subsection \<open>Loading reference images\<close>

text \<open>
  Functions of the Node.js runtime that the code calls and this repository does not
  define, taken as parameters: \<^verbatim>\<open>path.extname\<close>, \<^verbatim>\<open>String.prototype.toLowerCase\<close>,
  \<^verbatim>\<open>buffer.toString('base64')\<close>, \<^verbatim>\<open>Buffer.from(s, 'base64')\<close>, and the message of the
  \<^verbatim>\<open>TypeError\<close> raised by destructuring \<^verbatim>\<open>undefined\<close>.
\<close>

record platform =
  extname :: "string \<Rightarrow> string"
  toLowerCase :: "string \<Rightarrow> string"
  base64_encode :: "bytes \<Rightarrow> string"
  base64_decode :: "string \<Rightarrow> bytes"
  destructure_error :: string

definition mimeTypes :: "(string \<times> string) list" where
  "mimeTypes =
     [(''.png'', ''image/png''), (''.jpg'', ''image/jpeg''), (''.jpeg'', ''image/jpeg''),
      (''.webp'', ''image/webp''), (''.gif'', ''image/gif'')]"

definition getMimeType :: "platform \<Rightarrow> string \<Rightarrow> string" where
  "getMimeType P filePath =
     (let ext = toLowerCase P (extname P filePath)
      in or_else (map_of mimeTypes ext) ''image/png'')"

definition loadImageFromPath :: "platform \<Rightarrow> world \<Rightarrow> string \<Rightarrow> string + InputImage" where
  "loadImageFromPath P w filePath =
     (case fs w filePath of
        Inl e \<Rightarrow> Inl e
      | Inr buffer \<Rightarrow>
          Inr \<lparr>img_data = base64_encode P buffer,
               img_mimeType = Some (getMimeType P filePath)\<rparr>)"

text \<open>Lines 229 to 232: the loop stops at the first path that cannot be read.\<close>

fun load_loop :: "platform \<Rightarrow> world \<Rightarrow> InputImage list \<Rightarrow> string list \<Rightarrow> string + InputImage list" where
  "load_loop P w images [] = Inr images"
| "load_loop P w images (p # paths) =
     (case loadImageFromPath P w p of
        Inl e \<Rightarrow> Inl e
      | Inr img \<Rightarrow> load_loop P w (images @ [img]) paths)"

text \<open>Lines 227 to 233: \<^verbatim>\<open>imagePaths\<close> may be missing or empty.\<close>

definition load_images :: "platform \<Rightarrow> world \<Rightarrow> string list option \<Rightarrow> string + InputImage list" where
  "load_images P w imagePaths =
     (case imagePaths of
        None \<Rightarrow> Inr []
      | Some paths \<Rightarrow> if length paths > 0 then load_loop P w [] paths else Inr [])"

subsection \<open>The tool handler\<close>

record tool_args =
  arg_prompt :: string
  arg_imagePaths :: "string list option"
  arg_model :: "string option"
  arg_aspectRatio :: "string option"
  arg_outputFormat :: "string option"
  arg_outputPath :: "string option"

record tool_request =
  tool_name :: string
  arguments :: "tool_args option"

text \<open>
  A content object \<^verbatim>\<open>{ type: "text", text }\<close> or \<^verbatim>\<open>{ type: "image", data, mimeType }\<close>.
\<close>

datatype content_block = TextContent string | ImageContent string string

text \<open>The handler's return value; a missing \<^verbatim>\<open>isError\<close> property is \<open>False\<close>.\<close>

record tool_response =
  content :: "content_block list"
  isError :: bool

text \<open>
  \<^verbatim>\<open>writeFile\<close>: a rejected write is taken to leave the file system as it was.
\<close>

definition writeFile :: "world \<Rightarrow> string \<Rightarrow> bytes \<Rightarrow> (string + unit) \<times> world" where
  "writeFile w path bs =
     (case write_error w path bs of
        Some e \<Rightarrow> (Inl e, w)
      | None \<Rightarrow>
          (Inr (), w\<lparr>fs := (fs w)(path := Inr bs), written := written w @ [(path, bs)]\<rparr>))"

text \<open>Lines 246 to 253.\<close>

definition statusText :: "GenResult \<Rightarrow> string" where
  "statusText r =
     (let s0 = ''Model used: '' @ modelUsed r;
          s1 = (if fallback r
                then s0 @ '' (fallback from gemini-3-pro-image-preview due to quota/rate limit)''
                else s0)
      in case result_text r of
           None \<Rightarrow> s1
         | Some t \<Rightarrow> if t \<noteq> [] then s1 @ [CHR 0x0A, CHR 0x0A] @ t else s1)"

text \<open>
  Lines 243 to 271. \<^verbatim>\<open>result.imageData && result.mimeType\<close> and \<^verbatim>\<open>if (outputPath)\<close> are
  truthiness tests: a missing value and the empty string both fail them.
\<close>

definition render ::
  "platform \<Rightarrow> world \<Rightarrow> GenResult \<Rightarrow> string option \<Rightarrow> (string + content_block list) \<times> world" where
  "render P w r outputPath =
     (let content0 = [TextContent (statusText r)]
      in case (imageData r, mimeType r) of
           (Some d, Some m) \<Rightarrow>
             if d \<noteq> [] \<and> m \<noteq> [] then
               (case outputPath of
                  None \<Rightarrow> (Inr (content0 @ [ImageContent d m]), w)
                | Some path \<Rightarrow>
                    if path \<noteq> [] then
                      (case writeFile w path (base64_decode P d) of
                         (Inl e, w1) \<Rightarrow> (Inl e, w1)
                       | (Inr _, w1) \<Rightarrow>
                           (Inr (content0 @ [TextContent (''Image saved to: '' @ path)]), w1))
                    else (Inr (content0 @ [ImageContent d m]), w))
             else (Inr content0, w)
         | _ \<Rightarrow> (Inr content0, w))"

text \<open>Lines 216 to 274: the body of the \<^verbatim>\<open>try\<close> block.\<close>

definition call_tool ::
  "platform \<Rightarrow> world \<Rightarrow> tool_request \<Rightarrow> (string + content_block list) \<times> world" where
  "call_tool P w req =
     (if tool_name req = ''generate_image'' then
        (case arguments req of
           None \<Rightarrow> (Inl (destructure_error P), w)
         | Some a \<Rightarrow>
             (case load_images P w (arg_imagePaths a) of
                Inl e \<Rightarrow> (Inl e, w)
              | Inr images \<Rightarrow>
                  (case generateImage w (arg_prompt a) images (arg_model a)
                          (arg_aspectRatio a) (arg_outputFormat a) of
                     (Inl e, w1) \<Rightarrow> (Inl e, w1)
                   | (Inr r, w1) \<Rightarrow> render P w1 r (arg_outputPath a))))
      else (Inl (''Unknown tool: '' @ tool_name req), w))"

text \<open>Lines 212 to 282: \<^verbatim>\<open>try\<close> and \<^verbatim>\<open>catch\<close>.\<close>

definition handler :: "platform \<Rightarrow> world \<Rightarrow> tool_request \<Rightarrow> tool_response \<times> world" where
  "handler P w req =
     (case call_tool P w req of
        (Inl errorMessage, w1) \<Rightarrow>
          (\<lparr>content = [TextContent (''Error: '' @ errorMessage)], isError = True\<rparr>, w1)
      | (Inr c, w1) \<Rightarrow> (\<lparr>content = c, isError = False\<rparr>, w1))"


subsection \<open>Fixtures, after the mocks of src/src/index.test.ts\<close>

text \<open>
  The test suite sets the key to \<^verbatim>\<open>test-api-key\<close>, mocks \<^verbatim>\<open>fetch\<close> with a queue of
  responses, and mocks the file system.
\<close>

definition test_world :: "(nat \<Rightarrow> request \<Rightarrow> string + http_response) \<Rightarrow> world" where
  "test_world mockFetch =
     \<lparr>env_GEMINI_API_KEY = Some ''test-api-key'',
      fs = (\<lambda>p. if p = ''/in/a.png'' then Inr [0x66, 0x61, 0x6B, 0x65] else Inl ''ENOENT: no such file''),
      write_error = (\<lambda>p b. if p = ''/readonly/out.png'' then Some ''EACCES: permission denied'' else None),
      written = [],
      net = mockFetch,
      sent = []\<rparr>"

definition test_platform :: platform where
  "test_platform =
     \<lparr>extname = (\<lambda>p. ''.png''),
      toLowerCase = (\<lambda>s. s),
      base64_encode = (\<lambda>b. ''ZmFrZQ==''),
      base64_decode = (\<lambda>s. [0x66, 0x61, 0x6B, 0x65]),
      destructure_error = ''Cannot destructure property of undefined''\<rparr>"

definition json_response :: "GeminiResponse \<Rightarrow> http_response" where
  "json_response d = \<lparr>status = 200, body_text = [], body_json = Inr d\<rparr>"

definition failed_response :: "nat \<Rightarrow> string \<Rightarrow> http_response" where
  "failed_response st t = \<lparr>status = st, body_text = t, body_json = Inl ''Unexpected token''\<rparr>"

definition parts_body :: "ResponsePart list \<Rightarrow> GeminiResponse" where
  "parts_body ps =
     \<lparr>candidates = Some [\<lparr>cand_content = Some \<lparr>content_parts = Some ps\<rparr>\<rparr>], error = None\<rparr>"

definition text_only :: "string \<Rightarrow> ResponsePart" where
  "text_only t = \<lparr>part_text = Some t, part_inlineData = None\<rparr>"

definition image_only :: "string \<Rightarrow> string \<Rightarrow> ResponsePart" where
  "image_only m d =
     \<lparr>part_text = None, part_inlineData = Some \<lparr>inline_mimeType = m, inline_data = d\<rparr>\<rparr>"

definition generate_request :: "tool_args \<Rightarrow> tool_request" where
  "generate_request a = \<lparr>tool_name = ''generate_image'', arguments = Some a\<rparr>"

definition prompt_only :: "string \<Rightarrow> tool_args" where
  "prompt_only p =
     \<lparr>arg_prompt = p, arg_imagePaths = None, arg_model = None, arg_aspectRatio = None,
      arg_outputFormat = None, arg_outputPath = None\<rparr>"

text \<open>
  \<^verbatim>\<open>mockResolvedValueOnce\<close>: the \<open>n\<close>-th call of \<^verbatim>\<open>fetch\<close> gets the \<open>n\<close>-th response of the
  queue; past its end the request is rejected.
\<close>

definition mock_queue :: "http_response list \<Rightarrow> nat \<Rightarrow> request \<Rightarrow> string + http_response" where
  "mock_queue rs n req = (if n < length rs then Inr (rs ! n) else Inl ''fetch failed'')"

text \<open>A response with a text part and an image part, and the result it normalises to.\<close>

definition image_world :: world where
  "image_world =
     test_world (mock_queue
       [json_response (parts_body [text_only ''Here is your image'',
                                   image_only ''image/png'' ''base64imagedata''])])"

definition image_result :: GenResult where
  "image_result =
     \<lparr>result_text = Some ''Here is your image'', imageData = Some ''base64imagedata'',
      mimeType = Some ''image/png'', modelUsed = pro_model, fallback = False\<rparr>"

definition text_world :: world where
  "text_world = test_world (mock_queue [json_response (parts_body [text_only ''Only text response''])])"

definition text_result :: GenResult where
  "text_result =
     \<lparr>result_text = Some ''Only text response'', imageData = None, mimeType = None,
      modelUsed = pro_model, fallback = False\<rparr>"

definition loaded_image :: InputImage where
  "loaded_image = \<lparr>img_data = ''ZmFrZQ=='', img_mimeType = Some ''image/png''\<rparr>"

text \<open>The queue of \<^verbatim>\<open>should fallback to Flash on 429 rate limit\<close>.\<close>

definition fallback_world :: world where
  "fallback_world =
     test_world (mock_queue
       [failed_response 429 ''Rate limit exceeded'',
        json_response (parts_body [text_only ''Success with Flash''])])"

text \<open>Further queues of the test suite, and two responses the suite does not try.\<close>

definition flash_limited_world :: world where
  "flash_limited_world = test_world (mock_queue [failed_response 429 ''Rate limit exceeded''])"

definition server_error_world :: world where
  "server_error_world = test_world (mock_queue [failed_response 500 ''Server error''])"

definition bad_request_world :: world where
  "bad_request_world = test_world (mock_queue [failed_response 400 ''Bad request''])"

definition retry_failed_world :: world where
  "retry_failed_world =
     test_world (mock_queue
       [failed_response 429 ''Rate limit exceeded'', failed_response 503 ''Overloaded''])"

definition error_body :: GeminiResponse where
  "error_body = \<lparr>candidates = None, error = Some \<lparr>message = ''Invalid API key''\<rparr>\<rparr>"

definition error_body_world :: world where
  "error_body_world = test_world (mock_queue [json_response error_body])"

definition retried_error_world :: world where
  "retried_error_world =
     test_world (mock_queue [failed_response 429 ''Rate limit exceeded'', json_response error_body])"

definition empty_parts_world :: world where
  "empty_parts_world = test_world (mock_queue [json_response (parts_body [])])"

definition two_texts_world :: world where
  "two_texts_world =
     test_world (mock_queue [json_response (parts_body [text_only ''first'', text_only []])])"

definition bare_part_world :: world where
  "bare_part_world =
     test_world (mock_queue
       [json_response (parts_body [\<lparr>part_text = None, part_inlineData = None\<rparr>])])"

definition empty_data_world :: world where
  "empty_data_world =
     test_world (mock_queue [json_response (parts_body [image_only ''image/png'' []])])"

text \<open>Two invocations: two reference images and an output path; a prompt alone.\<close>

definition save_args :: tool_args where
  "save_args =
     (prompt_only ''Put these glasses on this face'')
       \<lparr>arg_imagePaths := Some [''/in/a.png'', ''/in/a.png''],
        arg_outputPath := Some ''/out/result.png''\<rparr>"

definition sunset_args :: tool_args where
  "sunset_args = prompt_only ''A sunset over mountains''"

definition image_status :: string where
  "image_status =
     ''Model used: gemini-3-pro-image-preview'' @ [CHR 0x0A, CHR 0x0A] @ ''Here is your image''"

definition empty_text_world :: world where
  "empty_text_world = test_world (mock_queue [json_response (parts_body [text_only []])])"

section \<open>Properties\<close>

subsection \<open>Unfolding sets for evaluating the fixtures\<close>

lemmas fixture_defs =
  test_world_def test_platform_def json_response_def failed_response_def parts_body_def
  text_only_def image_only_def generate_request_def prompt_only_def mock_queue_def
  image_world_def image_result_def text_world_def text_result_def loaded_image_def
  fallback_world_def flash_limited_world_def server_error_world_def bad_request_world_def
  retry_failed_world_def error_body_def error_body_world_def retried_error_world_def
  empty_parts_world_def two_texts_world_def bare_part_world_def empty_data_world_def
  save_args_def sunset_args_def image_status_def empty_text_world_def

lemmas run_defs =
  generateImage_def send_with_fallback_def fetch_def handle_response_def ok_def
  responseParts_def scan_part_def truthy_def or_else_def build_parts_def image_part_def
  model_arg_def pro_model_def flash_model_def first_response_def retry_response_def
  final_response_def

lemmas handler_defs =
  handler_def call_tool_def load_images_def loadImageFromPath_def getMimeType_def mimeTypes_def
  render_def statusText_def writeFile_def

subsection \<open>Auxiliary facts\<close>

lemma push_images_eq: "push_images ps images = ps @ map image_part images"
  by (induction images arbitrary: ps) simp_all

lemma build_parts_eq: "build_parts prompt images = TextPart prompt # map image_part images"
  by (simp add: build_parts_def push_images_eq)

lemma scan_part_frame:
  "modelUsed (scan_part r p) = modelUsed r \<and> fallback (scan_part r p) = fallback r"
  by (simp add: scan_part_def Let_def split: option.splits)

lemma scan_parts_frame:
  "modelUsed (scan_parts r ps) = modelUsed r \<and> fallback (scan_parts r ps) = fallback r"
  by (induction ps arbitrary: r) (simp_all add: scan_part_frame)

lemma handle_response_frame:
  "handle_response m f response = Inr g \<Longrightarrow> modelUsed g = m \<and> fallback g = f"
  by (auto simp: handle_response_def scan_parts_frame split: if_splits sum.splits option.splits)

lemma retryable_not_ok: "status r = 429 \<or> status r = 403 \<or> status r = 402 \<Longrightarrow> \<not> ok r"
  by (auto simp: ok_def)

text \<open>The three ways lines 147 to 159 can go.\<close>

lemma send_rejected:
  "net w (length (sent w)) (makeRequest k ps m) = Inl e \<Longrightarrow>
   send_with_fallback w k ps m = (Inl e, w\<lparr>sent := sent w @ [makeRequest k ps m]\<rparr>)"
  by (simp add: send_with_fallback_def fetch_def)

lemma send_direct:
  "net w (length (sent w)) (makeRequest k ps m) = Inr r1 \<Longrightarrow>
   \<not> (m = pro_model \<and> (status r1 = 429 \<or> status r1 = 403 \<or> status r1 = 402)) \<Longrightarrow>
   send_with_fallback w k ps m = (Inr (r1, m, False), w\<lparr>sent := sent w @ [makeRequest k ps m]\<rparr>)"
  by (auto simp add: send_with_fallback_def fetch_def)

lemma send_retry:
  "net w (length (sent w)) (makeRequest k ps m) = Inr r1 \<Longrightarrow>
   m = pro_model \<Longrightarrow> status r1 = 429 \<or> status r1 = 403 \<or> status r1 = 402 \<Longrightarrow>
   send_with_fallback w k ps m =
     ((case net w (Suc (length (sent w))) (makeRequest k ps flash_model) of
         Inl e \<Rightarrow> Inl e
       | Inr r2 \<Rightarrow> Inr (r2, flash_model, True)),
      w\<lparr>sent := sent w @ [makeRequest k ps pro_model, makeRequest k ps flash_model]\<rparr>)"
  using retryable_not_ok[of r1]
  by (auto simp add: send_with_fallback_def fetch_def split: sum.splits)

lemma generateImage_no_key:
  "\<not> truthy (env_GEMINI_API_KEY w) \<Longrightarrow>
   generateImage w prompt images model aspectRatio outputFormat =
     (Inl ''GEMINI_API_KEY environment variable is not set'', w)"
  by (simp add: generateImage_def truthy_def split: option.splits)

lemma generateImage_with_key:
  "env_GEMINI_API_KEY w = Some k \<Longrightarrow> k \<noteq> [] \<Longrightarrow>
   generateImage w prompt images model aspectRatio outputFormat =
     (case send_with_fallback w k (build_parts prompt images) (model_arg model) of
        (Inl e, w1) \<Rightarrow> (Inl e, w1)
      | (Inr (response, usedModel, didFallback), w1) \<Rightarrow>
          (handle_response usedModel didFallback response, w1))"
  by (simp add: generateImage_def)

lemma first_response_Some:
  "first_response w prompt images model = Some r1 \<Longrightarrow>
   \<exists>k. env_GEMINI_API_KEY w = Some k \<and> k \<noteq> [] \<and>
       net w (length (sent w)) (makeRequest k (build_parts prompt images) (model_arg model)) = Inr r1"
  by (auto simp: first_response_def fetch_def split: option.splits if_splits sum.splits)

lemma first_response_None:
  "first_response w prompt images model = None \<Longrightarrow>
   \<not> truthy (env_GEMINI_API_KEY w) \<or>
   (\<exists>k e. env_GEMINI_API_KEY w = Some k \<and> k \<noteq> [] \<and>
       net w (length (sent w)) (makeRequest k (build_parts prompt images) (model_arg model)) = Inl e)"
  by (auto simp: first_response_def fetch_def truthy_def split: option.splits if_splits sum.splits)

lemma retry_response_eq:
  "env_GEMINI_API_KEY w = Some k \<Longrightarrow>
   retry_response w prompt images model =
     (case net w (Suc (length (sent w))) (makeRequest k (build_parts prompt images) flash_model) of
        Inl e \<Rightarrow> None | Inr r \<Rightarrow> Some r)"
  by (simp add: retry_response_def fetch_def)


lemma show_nat_examples:
  "show_nat 429 = ''429''" "show_nat 500 = ''500''" "show_nat 503 = ''503''" "show_nat 400 = ''400''"
  by (simp_all add: show_nat.simps)

lemma send_sent:
  "\<exists>rs. sent (snd (send_with_fallback w k ps m)) = sent w @ rs
        \<and> set rs \<subseteq> {makeRequest k ps m, makeRequest k ps flash_model}"
  by (auto simp: send_with_fallback_def fetch_def split: sum.splits)

lemma send_frame:
  "send_with_fallback w k ps m = (x, w1) \<Longrightarrow>
   env_GEMINI_API_KEY w1 = env_GEMINI_API_KEY w \<and> fs w1 = fs w \<and> write_error w1 = write_error w
   \<and> written w1 = written w \<and> net w1 = net w"
  by (auto simp: send_with_fallback_def fetch_def split: sum.splits if_splits)

lemma generateImage_frame:
  "generateImage w prompt images model aspectRatio outputFormat = (x, w1) \<Longrightarrow>
   env_GEMINI_API_KEY w1 = env_GEMINI_API_KEY w \<and> fs w1 = fs w \<and> write_error w1 = write_error w
   \<and> written w1 = written w \<and> net w1 = net w"
  by (auto simp: generateImage_def split: option.splits if_splits prod.splits sum.splits
           dest: send_frame)

lemma final_response_eq:
  "final_response w prompt images model =
     (case first_response w prompt images model of
        None \<Rightarrow> None
      | Some r1 \<Rightarrow>
          if model_arg model = pro_model \<and> status r1 \<in> {429, 403, 402}
          then retry_response w prompt images model else Some r1)"
  using retryable_not_ok
  by (auto simp: final_response_def first_response_def retry_response_def send_with_fallback_def
        fetch_def split: option.splits sum.splits)

lemma generateImage_final:
  "generateImage w prompt images model aspectRatio outputFormat = (res, w') \<Longrightarrow>
   final_response w prompt images model = Some response \<Longrightarrow>
   \<exists>m f. res = handle_response m f response"
  by (auto simp: generateImage_def final_response_def split: option.splits if_splits prod.splits sum.splits)

lemma generateImage_success_final:
  "generateImage w prompt images model aspectRatio outputFormat = (Inr g, w') \<Longrightarrow>
   \<exists>response m f. final_response w prompt images model = Some response
      \<and> handle_response m f response = Inr g"
  by (auto simp: generateImage_def final_response_def split: option.splits if_splits prod.splits sum.splits)

lemma scan_parts_snoc: "scan_parts r (ps @ [p]) = scan_part (scan_parts r ps) p"
  by (induction ps arbitrary: r) simp_all

lemma scan_parts_text:
  "result_text (scan_parts r ps) =
     (case rev (filter (\<lambda>p. truthy (part_text p)) ps) of
        [] \<Rightarrow> result_text r | q # qs \<Rightarrow> part_text q)"
proof (induction ps rule: rev_induct)
  case Nil
  show ?case by simp
next
  case (snoc p ps)
  show ?case
    by (cases "part_inlineData p") (simp_all add: scan_parts_snoc scan_part_def snoc)
qed

lemma scan_parts_image:
  "imageData (scan_parts r ps) =
     (case rev (filter (\<lambda>p. part_inlineData p \<noteq> None) ps) of
        [] \<Rightarrow> imageData r | q # qs \<Rightarrow> map_option inline_data (part_inlineData q))
   \<and> mimeType (scan_parts r ps) =
     (case rev (filter (\<lambda>p. part_inlineData p \<noteq> None) ps) of
        [] \<Rightarrow> mimeType r | q # qs \<Rightarrow> map_option inline_mimeType (part_inlineData q))"
proof (induction ps rule: rev_induct)
  case Nil
  show ?case by simp
next
  case (snoc p ps)
  show ?case
    by (cases "part_inlineData p") (simp_all add: scan_parts_snoc scan_part_def snoc Let_def)
qed

lemma responseParts_Some:
  "(responseParts d = Some ps) =
     (\<exists>c cs ct. candidates d = Some (c # cs) \<and> cand_content c = Some ct \<and> content_parts ct = Some ps)"
  by (auto simp: responseParts_def split: option.splits list.splits)

lemma responseParts_None:
  "(responseParts d = None) =
     (candidates d = None \<or> candidates d = Some []
      \<or> (\<exists>c cs. candidates d = Some (c # cs)
            \<and> (cand_content c = None
                \<or> (\<exists>ct. cand_content c = Some ct \<and> content_parts ct = None))))"
  by (auto simp: responseParts_def split: option.splits list.splits)

lemma handle_response_ok:
  "ok response \<Longrightarrow> body_json response = Inr d \<Longrightarrow> error d = None \<Longrightarrow>
   handle_response m f response =
     (case responseParts d of
        None \<Rightarrow> Inl ''No content generated''
      | Some ps \<Rightarrow>
          if ps = [] then Inl ''No content generated''
          else Inr (scan_parts \<lparr>result_text = None, imageData = None, mimeType = None,
                                modelUsed = m, fallback = f\<rparr> ps))"
  by (simp add: handle_response_def)

lemma handle_response_Inr:
  "handle_response m f response = Inr g \<Longrightarrow>
   \<exists>d ps. ok response \<and> body_json response = Inr d \<and> error d = None
      \<and> responseParts d = Some ps \<and> ps \<noteq> []
      \<and> g = scan_parts \<lparr>result_text = None, imageData = None, mimeType = None,
                         modelUsed = m, fallback = f\<rparr> ps"
  by (auto simp: handle_response_def split: if_splits sum.splits option.splits)

lemma scan_parts_carries_text:
  "result_text r = None \<Longrightarrow>
   (result_text (scan_parts r ps) \<noteq> None) = (\<exists>p \<in> set ps. truthy (part_text p))"
proof (cases "rev (filter (\<lambda>p. truthy (part_text p)) ps)")
  case Nil
  assume r: "result_text r = None"
  from Nil have "filter (\<lambda>p. truthy (part_text p)) ps = []" by simp
  then have "\<not> (\<exists>p \<in> set ps. truthy (part_text p))" by (simp add: filter_empty_conv)
  then show ?thesis unfolding scan_parts_text Nil using r by simp
next
  case (Cons q qs)
  then have "q \<in> set (filter (\<lambda>p. truthy (part_text p)) ps)"
    by (metis list.set_intros(1) set_rev)
  then have "q \<in> set ps" "truthy (part_text q)" by auto
  then show ?thesis unfolding scan_parts_text Cons by (auto simp: truthy_def split: option.splits)
qed

lemma scan_parts_carries_image:
  "imageData r = None \<Longrightarrow>
   (imageData (scan_parts r ps) \<noteq> None) = (\<exists>p \<in> set ps. part_inlineData p \<noteq> None)"
proof (cases "rev (filter (\<lambda>p. part_inlineData p \<noteq> None) ps)")
  case Nil
  assume r: "imageData r = None"
  from Nil have "filter (\<lambda>p. part_inlineData p \<noteq> None) ps = []" by simp
  then have "\<not> (\<exists>p \<in> set ps. part_inlineData p \<noteq> None)" by (simp add: filter_empty_conv)
  then show ?thesis using scan_parts_image[of r ps] r unfolding Nil by simp
next
  case (Cons q qs)
  then have "q \<in> set (filter (\<lambda>p. part_inlineData p \<noteq> None) ps)"
    by (metis list.set_intros(1) set_rev)
  then have "q \<in> set ps" "part_inlineData q \<noteq> None" by auto
  then show ?thesis using scan_parts_image[of r ps] unfolding Cons by auto
qed

lemma generateImage_text_nonempty:
  assumes "generateImage w prompt images model aspectRatio outputFormat = (Inr g, w1)"
  shows "result_text g \<noteq> Some []"
proof -
  from generateImage_success_final[OF assms] obtain response m f
    where "handle_response m f response = Inr g" by blast
  from handle_response_Inr[OF this] obtain ps
    where g: "g = scan_parts \<lparr>result_text = None, imageData = None, mimeType = None,
                         modelUsed = m, fallback = f\<rparr> ps" by blast
  show ?thesis
  proof (cases "rev (filter (\<lambda>p. truthy (part_text p)) ps)")
    case Nil
    then show ?thesis unfolding g scan_parts_text by simp
  next
    case (Cons q qs)
    then have "q \<in> set (filter (\<lambda>p. truthy (part_text p)) ps)"
      by (metis list.set_intros(1) set_rev)
    then have "truthy (part_text q)" by simp
    then show ?thesis unfolding g scan_parts_text Cons by (auto simp: truthy_def)
  qed
qed

lemma statusText_eq:
  "result_text g \<noteq> Some [] \<Longrightarrow>
   statusText g =
     ''Model used: '' @ modelUsed g
       @ (if fallback g
          then '' (fallback from gemini-3-pro-image-preview due to quota/rate limit)'' else [])
       @ (case result_text g of None \<Rightarrow> [] | Some t \<Rightarrow> [CHR 0x0A, CHR 0x0A] @ t)"
  by (simp add: statusText_def Let_def split: option.splits)

lemma call_tool_generate:
  "tool_name req = ''generate_image'' \<Longrightarrow> arguments req = Some a \<Longrightarrow>
   load_images P w (arg_imagePaths a) = Inr images \<Longrightarrow>
   generateImage w (arg_prompt a) images (arg_model a) (arg_aspectRatio a) (arg_outputFormat a)
     = (Inr g, w1) \<Longrightarrow>
   call_tool P w req = render P w1 g (arg_outputPath a)"
  by (simp add: call_tool_def)

lemma render_no_image:
  "imageData g = None \<or> mimeType g = None \<Longrightarrow>
   render P w1 g outputPath = (Inr [TextContent (statusText g)], w1)"
  by (auto simp: render_def Let_def split: option.splits)

lemma render_inline:
  "imageData g = Some d \<Longrightarrow> mimeType g = Some m \<Longrightarrow> d \<noteq> [] \<Longrightarrow> m \<noteq> [] \<Longrightarrow>
   \<not> truthy outputPath \<Longrightarrow>
   render P w1 g outputPath = (Inr [TextContent (statusText g), ImageContent d m], w1)"
  by (auto simp: render_def Let_def truthy_def split: option.splits)

lemma render_save:
  "imageData g = Some d \<Longrightarrow> mimeType g = Some m \<Longrightarrow> d \<noteq> [] \<Longrightarrow> m \<noteq> [] \<Longrightarrow>
   path \<noteq> [] \<Longrightarrow>
   render P w1 g (Some path) =
     (case write_error w1 path (base64_decode P d) of
        Some e \<Rightarrow> (Inl e, w1)
      | None \<Rightarrow>
          (Inr [TextContent (statusText g), TextContent (''Image saved to: '' @ path)],
           w1\<lparr>fs := (fs w1)(path := Inr (base64_decode P d)),
               written := written w1 @ [(path, base64_decode P d)]\<rparr>))"
  by (simp add: render_def Let_def writeFile_def split: option.splits)

lemma load_loop_unreadable:
  "i < length paths \<Longrightarrow> \<forall>j < i. \<exists>b. fs w (paths ! j) = Inr b \<Longrightarrow> fs w (paths ! i) = Inl e \<Longrightarrow>
   load_loop P w images paths = Inl e"
proof (induction paths arbitrary: i images)
  case Nil
  then show ?case by simp
next
  case (Cons p paths)
  show ?case
  proof (cases i)
    case 0
    with Cons.prems show ?thesis by (simp add: loadImageFromPath_def)
  next
    case (Suc k)
    with Cons.prems have "\<exists>b. fs w p = Inr b" by auto
    then obtain b where b: "fs w p = Inr b" by blast
    from Suc Cons.prems have "k < length paths" "\<forall>j < k. \<exists>b. fs w (paths ! j) = Inr b"
      "fs w (paths ! k) = Inl e" by auto
    from Cons.IH[OF this] show ?thesis by (simp add: loadImageFromPath_def b)
  qed
qed

lemma load_images_unreadable:
  "i < length paths \<Longrightarrow> \<forall>j < i. \<exists>b. fs w (paths ! j) = Inr b \<Longrightarrow> fs w (paths ! i) = Inl e \<Longrightarrow>
   load_images P w (Some paths) = Inl e"
  using load_loop_unreadable[of i paths w e P "[]"] by (auto simp: load_images_def)

lemma generateImage_requests:
  assumes run: "generateImage w prompt images model aspectRatio outputFormat = (res, w')"
  shows "case first_response w prompt images model of
           None \<Rightarrow> length (sent w') \<le> length (sent w) + 1 \<and> (\<forall>g. res \<noteq> Inr g)
         | Some r1 \<Rightarrow>
             if model_arg model = pro_model \<and> status r1 \<in> {429, 403, 402}
             then (\<forall>apiKey. env_GEMINI_API_KEY w = Some apiKey \<longrightarrow>
                     sent w' = sent w @ [makeRequest apiKey (build_parts prompt images) pro_model,
                                         makeRequest apiKey (build_parts prompt images) flash_model])
                  \<and> body (sent w' ! (length (sent w) + 1)) = body (sent w' ! length (sent w))
                  \<and> (\<forall>g. res = Inr g \<longrightarrow> fallback g \<and> modelUsed g = flash_model)
             else (\<forall>apiKey. env_GEMINI_API_KEY w = Some apiKey \<longrightarrow>
                     sent w' = sent w @ [makeRequest apiKey (build_parts prompt images) (model_arg model)])
                  \<and> (\<forall>g. res = Inr g \<longrightarrow> \<not> fallback g \<and> modelUsed g = model_arg model)"
proof (cases "first_response w prompt images model")
  case None
  from first_response_None[OF None] show ?thesis
  proof
    assume "\<not> truthy (env_GEMINI_API_KEY w)"
    with run None show ?thesis by (auto simp add: generateImage_no_key)
  next
    assume "\<exists>k e. env_GEMINI_API_KEY w = Some k \<and> k \<noteq> [] \<and>
       net w (length (sent w)) (makeRequest k (build_parts prompt images) (model_arg model)) = Inl e"
    then obtain k e where k: "env_GEMINI_API_KEY w = Some k" "k \<noteq> []"
      and e: "net w (length (sent w)) (makeRequest k (build_parts prompt images) (model_arg model)) = Inl e"
      by blast
    from run show ?thesis
      by (auto simp: None generateImage_with_key[OF k] send_rejected[OF e])
  qed
next
  case (Some r1)
  from first_response_Some[OF Some] obtain k where k: "env_GEMINI_API_KEY w = Some k" "k \<noteq> []"
    and r1: "net w (length (sent w)) (makeRequest k (build_parts prompt images) (model_arg model)) = Inr r1"
    by blast
  show ?thesis
  proof (cases "model_arg model = pro_model \<and> status r1 \<in> {429, 403, 402}")
    case True
    then have m: "model_arg model = pro_model"
      and st: "status r1 = 429 \<or> status r1 = 403 \<or> status r1 = 402" by auto
    have mk: "makeRequest k (build_parts prompt images) (model_arg model)
              = makeRequest k (build_parts prompt images) pro_model" using m by simp
    from run have w': "w' = w\<lparr>sent := sent w @ [makeRequest k (build_parts prompt images) pro_model,
                                 makeRequest k (build_parts prompt images) flash_model]\<rparr>"
      and res: "res = (case net w (Suc (length (sent w))) (makeRequest k (build_parts prompt images) flash_model) of
                  Inl e \<Rightarrow> Inl e | Inr r2 \<Rightarrow> handle_response flash_model True r2)"
      by (auto simp: generateImage_with_key[OF k] send_retry[OF r1 m st] split: sum.splits)
    have "\<forall>g. res = Inr g \<longrightarrow> fallback g \<and> modelUsed g = flash_model"
      using res handle_response_frame by (auto split: sum.splits)
    moreover have "body (sent w' ! (length (sent w) + 1)) = body (sent w' ! length (sent w))"
      by (simp add: w' nth_append makeRequest_def)
    ultimately show ?thesis using True Some k w' by simp
  next
    case False
    then have nr: "\<not> (model_arg model = pro_model \<and> (status r1 = 429 \<or> status r1 = 403 \<or> status r1 = 402))"
      by auto
    from run have w': "w' = w\<lparr>sent := sent w @ [makeRequest k (build_parts prompt images) (model_arg model)]\<rparr>"
      and res: "res = handle_response (model_arg model) False r1"
      by (auto simp: generateImage_with_key[OF k] send_direct[OF r1 nr])
    have "\<forall>g. res = Inr g \<longrightarrow> \<not> fallback g \<and> modelUsed g = model_arg model"
      using res handle_response_frame by auto
    then show ?thesis using False Some k w' by simp
  qed
qed

lemma generateImage_sent_exact:
  assumes k: "env_GEMINI_API_KEY w = Some k" "k \<noteq> []"
  shows "sent (snd (generateImage w prompt images model aspectRatio outputFormat))
           = sent w @ [makeRequest k (build_parts prompt images) (model_arg model)]
         \<or> (model_arg model = pro_model
            \<and> sent (snd (generateImage w prompt images model aspectRatio outputFormat))
                = sent w @ [makeRequest k (build_parts prompt images) pro_model,
                            makeRequest k (build_parts prompt images) flash_model])"
proof (cases "net w (length (sent w)) (makeRequest k (build_parts prompt images) (model_arg model))")
  case (Inl e)
  show ?thesis by (simp add: generateImage_with_key[OF k] send_rejected[OF Inl])
next
  case (Inr r1)
  show ?thesis
  proof (cases "model_arg model = pro_model \<and> (status r1 = 429 \<or> status r1 = 403 \<or> status r1 = 402)")
    case True
    then have m: "model_arg model = pro_model"
      and st: "status r1 = 429 \<or> status r1 = 403 \<or> status r1 = 402" by auto
    have "sent (snd (generateImage w prompt images model aspectRatio outputFormat))
                = sent w @ [makeRequest k (build_parts prompt images) pro_model,
                            makeRequest k (build_parts prompt images) flash_model]"
      by (simp add: generateImage_with_key[OF k] send_retry[OF Inr m st] split: sum.splits)
    with m show ?thesis by blast
  next
    case False
    show ?thesis by (simp add: generateImage_with_key[OF k] send_direct[OF Inr False])
  qed
qed

subsection \<open>C1: the fallback policy\<close>

text \<open>
  C1. A call of \<^verbatim>\<open>generateImage\<close> issues a second request exactly when the model it runs
  with (the caller's, or the pro default when the argument is omitted) is
  \<^verbatim>\<open>gemini-3-pro-image-preview\<close> and the first response has status 429, 403 or 402. Then
  the requests of the call are exactly two, the first to the pro model and the second to
  \<^verbatim>\<open>gemini-2.5-flash-image\<close> with the same body, and a successful result has
  \<open>fallback = True\<close> and \<open>modelUsed\<close> the flash model. When the first request is answered
  otherwise, it is the only request and a successful result has \<open>fallback = False\<close> and
  \<open>modelUsed\<close> the model the call ran with. When the call gets no first response (no
  credential, or the request is rejected) at most one request is issued and the call fails.
\<close>

theorem generateImage_fallback_policy:
  assumes run: "generateImage w prompt images model aspectRatio outputFormat = (res, w')"
  shows "((length (sent w') = length (sent w) + 2) =
            (\<exists>r1. first_response w prompt images model = Some r1
                  \<and> model_arg model = pro_model \<and> status r1 \<in> {429, 403, 402}))
       \<and> (case first_response w prompt images model of
             None \<Rightarrow> length (sent w') \<le> length (sent w) + 1 \<and> (\<forall>g. res \<noteq> Inr g)
           | Some r1 \<Rightarrow>
             if model_arg model = pro_model \<and> status r1 \<in> {429, 403, 402}
             then (\<forall>apiKey. env_GEMINI_API_KEY w = Some apiKey \<longrightarrow>
                     sent w' = sent w @ [makeRequest apiKey (build_parts prompt images) pro_model,
                                         makeRequest apiKey (build_parts prompt images) flash_model])
                  \<and> body (sent w' ! (length (sent w) + 1)) = body (sent w' ! length (sent w))
                  \<and> (\<forall>g. res = Inr g \<longrightarrow> fallback g \<and> modelUsed g = flash_model)
             else (\<forall>apiKey. env_GEMINI_API_KEY w = Some apiKey \<longrightarrow>
                     sent w' = sent w @ [makeRequest apiKey (build_parts prompt images) (model_arg model)])
                  \<and> (\<forall>g. res = Inr g \<longrightarrow> \<not> fallback g \<and> modelUsed g = model_arg model))"
proof -
  note main = generateImage_requests[OF run]
  have "(length (sent w') = length (sent w) + 2) =
            (\<exists>r1. first_response w prompt images model = Some r1
                  \<and> model_arg model = pro_model \<and> status r1 \<in> {429, 403, 402})"
  proof (cases "first_response w prompt images model")
    case None
    with main show ?thesis by simp
  next
    case (Some r1)
    from first_response_Some[OF Some] obtain k where k: "env_GEMINI_API_KEY w = Some k" by blast
    show ?thesis
    proof (cases "model_arg model = pro_model \<and> status r1 \<in> {429, 403, 402}")
      case True
      with main Some k show ?thesis by simp
    next
      case False
      with main Some k show ?thesis by simp
    qed
  qed
  with main show ?thesis by simp
qed

theorem generateImage_fallback_policy_witness:
  "first_response fallback_world ''test'' [] (Some pro_model)
     = Some (failed_response 429 ''Rate limit exceeded'')
   \<and> sent (snd (generateImage fallback_world ''test'' [] (Some pro_model) None None))
     = [makeRequest ''test-api-key'' [TextPart ''test''] pro_model,
        makeRequest ''test-api-key'' [TextPart ''test''] flash_model]
   \<and> fst (generateImage fallback_world ''test'' [] (Some pro_model) None None)
     = Inr \<lparr>result_text = Some ''Success with Flash'', imageData = None, mimeType = None,
            modelUsed = flash_model, fallback = True\<rparr>
   \<and> sent (snd (generateImage fallback_world ''test'' [] (Some flash_model) None None))
     = [makeRequest ''test-api-key'' [TextPart ''test''] flash_model]
   \<and> sent (snd (generateImage (fallback_world\<lparr>env_GEMINI_API_KEY := None\<rparr>)
                    ''test'' [] None None None)) = []"
  using generateImage_fallback_policy
          [of fallback_world "''test''" "[]" "Some pro_model" None None
              "fst (generateImage fallback_world ''test'' [] (Some pro_model) None None)"
              "snd (generateImage fallback_world ''test'' [] (Some pro_model) None None)"]
        generateImage_fallback_policy
          [of fallback_world "''test''" "[]" "Some flash_model" None None
              "fst (generateImage fallback_world ''test'' [] (Some flash_model) None None)"
              "snd (generateImage fallback_world ''test'' [] (Some flash_model) None None)"]
        generateImage_fallback_policy
          [of "fallback_world\<lparr>env_GEMINI_API_KEY := None\<rparr>" "''test''" "[]" None None None
              "fst (generateImage (fallback_world\<lparr>env_GEMINI_API_KEY := None\<rparr>)
                      ''test'' [] None None None)"
              "snd (generateImage (fallback_world\<lparr>env_GEMINI_API_KEY := None\<rparr>)
                      ''test'' [] None None None)"]
  by (simp add: fixture_defs run_defs)

subsection \<open>C2: what a successful result carries\<close>

text \<open>
  C2, as the code has it. A successful result comes from a response with a success status,
  a parsed body without an \<^verbatim>\<open>error\<close> object, and a first candidate whose parts list is
  not empty, and it carries text exactly when some part has a non-empty text, and image
  data exactly when some part has \<^verbatim>\<open>inlineData\<close>. Conversely, for the response the call
  ends up with, when it has a success status and a parsed body without an \<^verbatim>\<open>error\<close>
  object: a missing or empty parts list makes the call fail with
  \<^verbatim>\<open>No content generated\<close>; a non-empty parts list makes the call succeed, with text and
  image data as just said, so that a non-empty parts list none of whose parts has a
  non-empty text or \<^verbatim>\<open>inlineData\<close> is returned as a success with neither.
\<close>

theorem generateImage_success_content:
  assumes run: "generateImage w prompt images model aspectRatio outputFormat = (res, w')"
  shows "(\<forall>g. res = Inr g \<longrightarrow>
            (\<exists>response d c cs ct ps.
               final_response w prompt images model = Some response \<and> ok response
               \<and> body_json response = Inr d \<and> error d = None
               \<and> candidates d = Some (c # cs) \<and> cand_content c = Some ct
               \<and> content_parts ct = Some ps \<and> ps \<noteq> []
               \<and> ((result_text g \<noteq> None) = (\<exists>p \<in> set ps. truthy (part_text p)))
               \<and> ((imageData g \<noteq> None) = (\<exists>p \<in> set ps. part_inlineData p \<noteq> None))))
       \<and> (final_response w prompt images model = Some response \<and> ok response
             \<and> body_json response = Inr d \<and> error d = None \<longrightarrow>
             ((candidates d = None \<or> candidates d = Some []
               \<or> (\<exists>c cs. candidates d = Some (c # cs)
                     \<and> (cand_content c = None
                         \<or> (\<exists>ct. cand_content c = Some ct
                               \<and> (content_parts ct = None \<or> content_parts ct = Some [])))))
              \<longrightarrow> res = Inl ''No content generated'')
             \<and> (\<forall>c cs ct ps.
                   candidates d = Some (c # cs) \<and> cand_content c = Some ct
                   \<and> content_parts ct = Some ps \<and> ps \<noteq> [] \<longrightarrow>
                   (\<exists>g. res = Inr g
                      \<and> ((result_text g \<noteq> None) = (\<exists>p \<in> set ps. truthy (part_text p)))
                      \<and> ((imageData g \<noteq> None) = (\<exists>p \<in> set ps. part_inlineData p \<noteq> None))
                      \<and> ((\<forall>p \<in> set ps. \<not> truthy (part_text p) \<and> part_inlineData p = None)
                           \<longrightarrow> result_text g = None \<and> imageData g = None))))"
proof (intro conjI allI impI)
  fix g assume "res = Inr g"
  with run have rg: "generateImage w prompt images model aspectRatio outputFormat = (Inr g, w')"
    by simp
  from generateImage_success_final[OF rg] obtain response m f
    where fin: "final_response w prompt images model = Some response"
      and hr: "handle_response m f response = Inr g" by blast
  from handle_response_Inr[OF hr] obtain d ps
    where d: "ok response" "body_json response = Inr d" "error d = None"
      and ps: "responseParts d = Some ps" "ps \<noteq> []"
      and g: "g = scan_parts \<lparr>result_text = None, imageData = None, mimeType = None,
                         modelUsed = m, fallback = f\<rparr> ps" by blast
  from ps(1) obtain c cs ct where c: "candidates d = Some (c # cs)" "cand_content c = Some ct"
      "content_parts ct = Some ps"
    by (auto simp: responseParts_Some)
  have t: "(result_text g \<noteq> None) = (\<exists>p \<in> set ps. truthy (part_text p))"
    unfolding g by (rule scan_parts_carries_text) simp
  have i: "(imageData g \<noteq> None) = (\<exists>p \<in> set ps. part_inlineData p \<noteq> None)"
    unfolding g by (rule scan_parts_carries_image) simp
  from fin d c ps(2) t i
  show "\<exists>response d c cs ct ps.
               final_response w prompt images model = Some response \<and> ok response
               \<and> body_json response = Inr d \<and> error d = None
               \<and> candidates d = Some (c # cs) \<and> cand_content c = Some ct
               \<and> content_parts ct = Some ps \<and> ps \<noteq> []
               \<and> ((result_text g \<noteq> None) = (\<exists>p \<in> set ps. truthy (part_text p)))
               \<and> ((imageData g \<noteq> None) = (\<exists>p \<in> set ps. part_inlineData p \<noteq> None))"
    by blast
next
  assume a: "final_response w prompt images model = Some response \<and> ok response
             \<and> body_json response = Inr d \<and> error d = None"
    and e: "candidates d = None \<or> candidates d = Some []
               \<or> (\<exists>c cs. candidates d = Some (c # cs)
                     \<and> (cand_content c = None
                         \<or> (\<exists>ct. cand_content c = Some ct
                               \<and> (content_parts ct = None \<or> content_parts ct = Some []))))"
  from a generateImage_final[OF run] obtain m f where res: "res = handle_response m f response"
    by blast
  from a have hr: "handle_response m f response =
     (case responseParts d of
        None \<Rightarrow> Inl ''No content generated''
      | Some ps \<Rightarrow>
          if ps = [] then Inl ''No content generated''
          else Inr (scan_parts \<lparr>result_text = None, imageData = None, mimeType = None,
                                modelUsed = m, fallback = f\<rparr> ps))"
    using handle_response_ok by blast
  from e have "responseParts d = None \<or> responseParts d = Some []"
    unfolding responseParts_None responseParts_Some by auto
  then show "res = Inl ''No content generated''"
    unfolding res hr by auto
next
  fix c cs ct ps
  assume a: "final_response w prompt images model = Some response \<and> ok response
             \<and> body_json response = Inr d \<and> error d = None"
    and p: "candidates d = Some (c # cs) \<and> cand_content c = Some ct
                   \<and> content_parts ct = Some ps \<and> ps \<noteq> []"
  from a generateImage_final[OF run] obtain m f where res: "res = handle_response m f response"
    by blast
  from a have hr: "handle_response m f response =
     (case responseParts d of
        None \<Rightarrow> Inl ''No content generated''
      | Some ps \<Rightarrow>
          if ps = [] then Inl ''No content generated''
          else Inr (scan_parts \<lparr>result_text = None, imageData = None, mimeType = None,
                                modelUsed = m, fallback = f\<rparr> ps))"
    using handle_response_ok by blast
  from p have rp: "responseParts d = Some ps" and ne: "ps \<noteq> []"
    by (auto simp: responseParts_Some)
  define g where "g = scan_parts \<lparr>result_text = None, imageData = None, mimeType = None,
                                modelUsed = m, fallback = f\<rparr> ps"
  have rg: "res = Inr g" unfolding res hr g_def using rp ne by simp
  have t: "(result_text g \<noteq> None) = (\<exists>p \<in> set ps. truthy (part_text p))"
    unfolding g_def by (rule scan_parts_carries_text) simp
  have i: "(imageData g \<noteq> None) = (\<exists>p \<in> set ps. part_inlineData p \<noteq> None)"
    unfolding g_def by (rule scan_parts_carries_image) simp
  have n: "(\<forall>p \<in> set ps. \<not> truthy (part_text p) \<and> part_inlineData p = None)
                           \<longrightarrow> result_text g = None \<and> imageData g = None"
    using t i by auto
  from rg t i n
  show "\<exists>g. res = Inr g
                      \<and> ((result_text g \<noteq> None) = (\<exists>p \<in> set ps. truthy (part_text p)))
                      \<and> ((imageData g \<noteq> None) = (\<exists>p \<in> set ps. part_inlineData p \<noteq> None))
                      \<and> ((\<forall>p \<in> set ps. \<not> truthy (part_text p) \<and> part_inlineData p = None)
                           \<longrightarrow> result_text g = None \<and> imageData g = None)"
    by blast
qed

theorem generateImage_success_content_witness:
  "fst (generateImage empty_parts_world ''test prompt'' [] None None None)
     = Inl ''No content generated''
   \<and> (\<exists>g. fst (generateImage empty_text_world ''test prompt'' [] None None None) = Inr g
          \<and> result_text g = None \<and> imageData g = None)
   \<and> fst (generateImage text_world ''test prompt'' [] None None None) = Inr text_result
   \<and> (\<exists>response d c cs ct ps.
          final_response text_world ''test prompt'' [] None = Some response \<and> ok response
          \<and> body_json response = Inr d \<and> error d = None
          \<and> candidates d = Some (c # cs) \<and> cand_content c = Some ct
          \<and> content_parts ct = Some ps \<and> ps \<noteq> []
          \<and> ((result_text text_result \<noteq> None) = (\<exists>p \<in> set ps. truthy (part_text p)))
          \<and> ((imageData text_result \<noteq> None) = (\<exists>p \<in> set ps. part_inlineData p \<noteq> None)))"
proof -
  have run1: "generateImage empty_parts_world ''test prompt'' [] None None None
                = (fst (generateImage empty_parts_world ''test prompt'' [] None None None),
                   snd (generateImage empty_parts_world ''test prompt'' [] None None None))"
    by simp
  have resp1: "final_response empty_parts_world ''test prompt'' [] None
                 = Some (json_response (parts_body []))
               \<and> ok (json_response (parts_body []))
               \<and> body_json (json_response (parts_body [])) = Inr (parts_body [])
               \<and> error (parts_body []) = None"
    by (simp add: fixture_defs run_defs)
  have empty1: "candidates (parts_body []) = None \<or> candidates (parts_body []) = Some []
                \<or> (\<exists>c cs. candidates (parts_body []) = Some (c # cs)
                      \<and> (cand_content c = None
                          \<or> (\<exists>ct. cand_content c = Some ct
                                \<and> (content_parts ct = None \<or> content_parts ct = Some []))))"
    by (simp add: parts_body_def)
  note fact1 = generateImage_success_content
                 [OF run1, where response = "json_response (parts_body [])"
                    and d = "parts_body []"]
  have a: "fst (generateImage empty_parts_world ''test prompt'' [] None None None)
             = Inl ''No content generated''"
    by (rule fact1[THEN conjunct2, THEN mp, OF resp1, THEN conjunct1, THEN mp, OF empty1])

  have run2: "generateImage empty_text_world ''test prompt'' [] None None None
                = (fst (generateImage empty_text_world ''test prompt'' [] None None None),
                   snd (generateImage empty_text_world ''test prompt'' [] None None None))"
    by simp
  have resp2: "final_response empty_text_world ''test prompt'' [] None
                 = Some (json_response (parts_body [text_only []]))
               \<and> ok (json_response (parts_body [text_only []]))
               \<and> body_json (json_response (parts_body [text_only []]))
                   = Inr (parts_body [text_only []])
               \<and> error (parts_body [text_only []]) = None"
    by (simp add: fixture_defs run_defs)
  have parts2: "candidates (parts_body [text_only []])
                  = Some (\<lparr>cand_content = Some \<lparr>content_parts = Some [text_only []]\<rparr>\<rparr> # [])
                \<and> cand_content \<lparr>cand_content = Some \<lparr>content_parts = Some [text_only []]\<rparr>\<rparr>
                  = Some \<lparr>content_parts = Some [text_only []]\<rparr>
                \<and> content_parts \<lparr>content_parts = Some [text_only []]\<rparr> = Some [text_only []]
                \<and> [text_only []] \<noteq> []"
    by (simp add: parts_body_def)
  have bare2: "\<forall>p \<in> set [text_only []]. \<not> truthy (part_text p) \<and> part_inlineData p = None"
    by (simp add: text_only_def truthy_def)
  note fact2 = generateImage_success_content
                 [OF run2, where response = "json_response (parts_body [text_only []])"
                    and d = "parts_body [text_only []]"]
  from fact2[THEN conjunct2, THEN mp, OF resp2, THEN conjunct2,
             THEN spec, THEN spec, THEN spec, THEN spec, THEN mp, OF parts2]
  obtain g where g: "fst (generateImage empty_text_world ''test prompt'' [] None None None) = Inr g"
    and n: "(\<forall>p \<in> set [text_only []]. \<not> truthy (part_text p) \<and> part_inlineData p = None)
              \<longrightarrow> result_text g = None \<and> imageData g = None"
    by blast
  from n bare2 have "result_text g = None \<and> imageData g = None" by (rule mp)
  with g have b: "\<exists>g. fst (generateImage empty_text_world ''test prompt'' [] None None None) = Inr g
          \<and> result_text g = None \<and> imageData g = None"
    by blast

  have run3: "generateImage text_world ''test prompt'' [] None None None
                = (fst (generateImage text_world ''test prompt'' [] None None None),
                   snd (generateImage text_world ''test prompt'' [] None None None))"
    by simp
  have succ3: "fst (generateImage text_world ''test prompt'' [] None None None) = Inr text_result"
    by (simp add: fixture_defs run_defs)
  note fact3 = generateImage_success_content[OF run3]
  have c: "\<exists>response d c cs ct ps.
              final_response text_world ''test prompt'' [] None = Some response \<and> ok response
              \<and> body_json response = Inr d \<and> error d = None
              \<and> candidates d = Some (c # cs) \<and> cand_content c = Some ct
              \<and> content_parts ct = Some ps \<and> ps \<noteq> []
              \<and> ((result_text text_result \<noteq> None) = (\<exists>p \<in> set ps. truthy (part_text p)))
              \<and> ((imageData text_result \<noteq> None) = (\<exists>p \<in> set ps. part_inlineData p \<noteq> None))"
    by (rule fact3[THEN conjunct1, THEN spec, THEN mp, OF succ3])
  from a b succ3 c show ?thesis by (intro conjI)
qed

text \<open>
  The claim as stated makes every result without text and without image data an error.
  A response whose only part has neither property (\<^verbatim>\<open>parts: [{}]\<close>) is returned as a
  success with neither.
\<close>

theorem generateImage_neither_counterexample:
  "final_response bare_part_world ''test prompt'' [] None
     = Some (json_response (parts_body [\<lparr>part_text = None, part_inlineData = None\<rparr>]))
   \<and> fst (generateImage bare_part_world ''test prompt'' [] None None None)
     = Inr \<lparr>result_text = None, imageData = None, mimeType = None,
            modelUsed = pro_model, fallback = False\<rparr>"
  by (simp add: fixture_defs run_defs)

subsection \<open>C3: normalising the response\<close>

text \<open>
  C3, as the code has it. Take the response the call ends up with (the first one, or the
  retry's), with a success status and a parsed body without an \<^verbatim>\<open>error\<close> object. The call
  fails with \<^verbatim>\<open>No content generated\<close> exactly when \<^verbatim>\<open>candidates\<close> is missing or empty, or
  the first candidate has no \<^verbatim>\<open>content\<close>, or that content has no \<^verbatim>\<open>parts\<close> or an empty
  list of them. Otherwise the call succeeds: \<open>result_text\<close> is the text of the last part
  whose text is a non-empty string (and is missing when there is no such part; a part
  whose text is the empty string is passed over, it does not overwrite), and \<open>imageData\<close>
  and \<open>mimeType\<close> are the data and mime type of the last part that has \<^verbatim>\<open>inlineData\<close> (and
  are missing when there is none). A text-only or image-only outcome is a success.
\<close>

theorem generateImage_normalization:
  assumes run: "generateImage w prompt images model aspectRatio outputFormat = (res, w')"
    and fin: "final_response w prompt images model = Some response"
    and okr: "ok response"
    and js: "body_json response = Inr d"
    and er: "error d = None"
  shows "((res = Inl ''No content generated'') =
            (candidates d = None \<or> candidates d = Some []
             \<or> (\<exists>c cs. candidates d = Some (c # cs)
                   \<and> (cand_content c = None
                       \<or> (\<exists>ct. cand_content c = Some ct
                             \<and> (content_parts ct = None \<or> content_parts ct = Some []))))))
       \<and> (\<forall>c cs ct ps.
             candidates d = Some (c # cs) \<and> cand_content c = Some ct
             \<and> content_parts ct = Some ps \<and> ps \<noteq> [] \<longrightarrow>
             (\<exists>g. res = Inr g
                \<and> result_text g =
                     (case rev (filter (\<lambda>p. truthy (part_text p)) ps) of
                        [] \<Rightarrow> None | q # qs \<Rightarrow> part_text q)
                \<and> imageData g =
                     (case rev (filter (\<lambda>p. part_inlineData p \<noteq> None) ps) of
                        [] \<Rightarrow> None | q # qs \<Rightarrow> map_option inline_data (part_inlineData q))
                \<and> mimeType g =
                     (case rev (filter (\<lambda>p. part_inlineData p \<noteq> None) ps) of
                        [] \<Rightarrow> None | q # qs \<Rightarrow> map_option inline_mimeType (part_inlineData q))))"
proof -
  from generateImage_final[OF run fin] obtain m f where res: "res = handle_response m f response"
    by blast
  note hr = handle_response_ok[OF okr js er, of m f]
  have a: "(res = Inl ''No content generated'') = (responseParts d = None \<or> responseParts d = Some [])"
    unfolding res hr by (auto split: option.splits)
  have b: "(responseParts d = None \<or> responseParts d = Some []) =
            (candidates d = None \<or> candidates d = Some []
             \<or> (\<exists>c cs. candidates d = Some (c # cs)
                   \<and> (cand_content c = None
                       \<or> (\<exists>ct. cand_content c = Some ct
                             \<and> (content_parts ct = None \<or> content_parts ct = Some [])))))"
    unfolding responseParts_None responseParts_Some by auto
  have c: "\<exists>g. res = Inr g
                \<and> result_text g =
                     (case rev (filter (\<lambda>p. truthy (part_text p)) ps) of
                        [] \<Rightarrow> None | q # qs \<Rightarrow> part_text q)
                \<and> imageData g =
                     (case rev (filter (\<lambda>p. part_inlineData p \<noteq> None) ps) of
                        [] \<Rightarrow> None | q # qs \<Rightarrow> map_option inline_data (part_inlineData q))
                \<and> mimeType g =
                     (case rev (filter (\<lambda>p. part_inlineData p \<noteq> None) ps) of
                        [] \<Rightarrow> None | q # qs \<Rightarrow> map_option inline_mimeType (part_inlineData q))"
    if "candidates d = Some (c # cs) \<and> cand_content c = Some ct
             \<and> content_parts ct = Some ps \<and> ps \<noteq> []" for c cs ct ps
  proof -
    from that have "responseParts d = Some ps" and "ps \<noteq> []"
      by (auto simp: responseParts_Some)
    then have "res = Inr (scan_parts \<lparr>result_text = None, imageData = None, mimeType = None,
                                modelUsed = m, fallback = f\<rparr> ps)"
      unfolding res hr by simp
    then show ?thesis
      by (simp add: scan_parts_text scan_parts_image split: list.splits)
  qed
  from a b c show ?thesis by blast
qed

theorem generateImage_normalization_witness:
  "fst (generateImage image_world ''A beautiful sunset'' [] None None None) = Inr image_result
   \<and> fst (generateImage empty_parts_world ''test prompt'' [] None None None)
     = Inl ''No content generated''"
  using generateImage_normalization
          [of image_world "''A beautiful sunset''" "[]" None None None
              "fst (generateImage image_world ''A beautiful sunset'' [] None None None)"
              "snd (generateImage image_world ''A beautiful sunset'' [] None None None)"
              "json_response (parts_body [text_only ''Here is your image'',
                                          image_only ''image/png'' ''base64imagedata''])"
              "parts_body [text_only ''Here is your image'',
                           image_only ''image/png'' ''base64imagedata'']"]
        generateImage_normalization
          [of empty_parts_world "''test prompt''" "[]" None None None
              "fst (generateImage empty_parts_world ''test prompt'' [] None None None)"
              "snd (generateImage empty_parts_world ''test prompt'' [] None None None)"
              "json_response (parts_body [])" "parts_body []"]
  by (simp add: fixture_defs run_defs)

text \<open>
  The claim as stated lets the last part that has a \<^verbatim>\<open>text\<close> property win. With the parts
  \<^verbatim>\<open>[{text: "first"}, {text: ""}]\<close> the last such part holds the empty string, and the
  result keeps \<^verbatim>\<open>first\<close>.
\<close>

theorem generateImage_last_text_counterexample:
  "final_response two_texts_world ''test prompt'' [] None
     = Some (json_response (parts_body [text_only ''first'', text_only []]))
   \<and> part_text (last [text_only ''first'', text_only []]) = Some []
   \<and> fst (generateImage two_texts_world ''test prompt'' [] None None None)
     = Inr \<lparr>result_text = Some ''first'', imageData = None, mimeType = None,
            modelUsed = pro_model, fallback = False\<rparr>"
  by (simp add: fixture_defs run_defs)

subsection \<open>C4: the parts of the outbound request\<close>

text \<open>
  C4, as the code has it. For every prompt (the empty one included) and every list of
  images, of any length, the parts list of the outbound request has one element more than
  there are images; element 0 is the text part with the prompt as given; element \<open>i + 1\<close>
  is the inline-data part of image \<open>i\<close>, with the image's data and with the image's mime
  type when that is a non-empty string, and \<^verbatim>\<open>image/png\<close> when the mime type is missing or
  the empty string.
\<close>

theorem build_parts_layout:
  "length (build_parts prompt images) = length images + 1
   \<and> build_parts prompt images ! 0 = TextPart prompt
   \<and> (\<forall>i < length images.
        build_parts prompt images ! (i + 1) =
          InlineDataPart
            \<lparr>inline_mimeType =
               (case img_mimeType (images ! i) of
                  None \<Rightarrow> ''image/png''
                | Some m \<Rightarrow> if m = [] then ''image/png'' else m),
             inline_data = img_data (images ! i)\<rparr>)
   \<and> contents (body (makeRequest apiKey (build_parts prompt images) currentModel))
       = [\<lparr>parts = build_parts prompt images\<rparr>]"
  by (auto simp: build_parts_eq image_part_def or_else_def makeRequest_def split: option.splits)

theorem build_parts_layout_witness:
  "build_parts ''Combine these images''
     [\<lparr>img_data = ''base64image1'', img_mimeType = Some ''image/png''\<rparr>,
      \<lparr>img_data = ''base64image2'', img_mimeType = Some ''image/jpeg''\<rparr>,
      \<lparr>img_data = ''base64image3'', img_mimeType = None\<rparr>]
   = [TextPart ''Combine these images'',
      InlineDataPart \<lparr>inline_mimeType = ''image/png'', inline_data = ''base64image1''\<rparr>,
      InlineDataPart \<lparr>inline_mimeType = ''image/jpeg'', inline_data = ''base64image2''\<rparr>,
      InlineDataPart \<lparr>inline_mimeType = ''image/png'', inline_data = ''base64image3''\<rparr>]
   \<and> build_parts [] [] = [TextPart []]"
  using build_parts_layout
          [of "''Combine these images''"
              "[\<lparr>img_data = ''base64image1'', img_mimeType = Some ''image/png''\<rparr>,
                \<lparr>img_data = ''base64image2'', img_mimeType = Some ''image/jpeg''\<rparr>,
                \<lparr>img_data = ''base64image3'', img_mimeType = None\<rparr>]"
              "''test-api-key''" pro_model]
        build_parts_layout [of "[]" "[]" "''test-api-key''" pro_model]
  by (simp add: build_parts_def image_part_def or_else_def)

text \<open>
  The claim as stated has every image carry its own mime type unless that is absent. An
  image whose mime type is the empty string is sent as \<^verbatim>\<open>image/png\<close>.
\<close>

theorem build_parts_empty_mime_counterexample:
  "build_parts ''edit'' [\<lparr>img_data = ''base64image1'', img_mimeType = Some []\<rparr>] ! 1
     = InlineDataPart \<lparr>inline_mimeType = ''image/png'', inline_data = ''base64image1''\<rparr>
   \<and> build_parts ''edit'' [\<lparr>img_data = ''base64image1'', img_mimeType = Some []\<rparr>] ! 1
     \<noteq> InlineDataPart \<lparr>inline_mimeType = [], inline_data = ''base64image1''\<rparr>"
  by (simp add: build_parts_def image_part_def or_else_def)

subsection \<open>C5: terminal HTTP failures\<close>

text \<open>
  C5. A response with a non-success status that does not meet the fallback condition ends
  the call: no further request is issued and the call fails with
  \<^verbatim>\<open>Gemini API error: <status> - <body text>\<close>. This covers every failing status when the
  call runs with another model than the pro one (the flash model included), every failing
  status other than 429, 403 and 402 on the pro model, and every failing status of the
  retried flash request.
\<close>

theorem generateImage_http_error:
  assumes run: "generateImage w prompt images model aspectRatio outputFormat = (res, w')"
  shows "(\<forall>r1. first_response w prompt images model = Some r1 \<and> \<not> ok r1
               \<and> \<not> (model_arg model = pro_model \<and> status r1 \<in> {429, 403, 402})
            \<longrightarrow> res = Inl (''Gemini API error: '' @ show_nat (status r1) @ '' - '' @ body_text r1)
                \<and> length (sent w') = length (sent w) + 1)
       \<and> (\<forall>r1 r2. first_response w prompt images model = Some r1
               \<and> model_arg model = pro_model \<and> status r1 \<in> {429, 403, 402}
               \<and> retry_response w prompt images model = Some r2 \<and> \<not> ok r2
            \<longrightarrow> res = Inl (''Gemini API error: '' @ show_nat (status r2) @ '' - '' @ body_text r2)
                \<and> length (sent w') = length (sent w) + 2)"
proof (intro conjI allI impI)
  fix r1
  assume a: "first_response w prompt images model = Some r1 \<and> \<not> ok r1
               \<and> \<not> (model_arg model = pro_model \<and> status r1 \<in> {429, 403, 402})"
  from a first_response_Some obtain k where k: "env_GEMINI_API_KEY w = Some k" "k \<noteq> []"
    and r1: "net w (length (sent w)) (makeRequest k (build_parts prompt images) (model_arg model)) = Inr r1"
    by blast
  from a have nr: "\<not> (model_arg model = pro_model \<and> (status r1 = 429 \<or> status r1 = 403 \<or> status r1 = 402))"
    by auto
  from run a show "res = Inl (''Gemini API error: '' @ show_nat (status r1) @ '' - '' @ body_text r1)"
    by (auto simp: generateImage_with_key[OF k] send_direct[OF r1 nr] handle_response_def)
  from run show "length (sent w') = length (sent w) + 1"
    by (auto simp: generateImage_with_key[OF k] send_direct[OF r1 nr])
next
  fix r1 r2
  assume a: "first_response w prompt images model = Some r1
               \<and> model_arg model = pro_model \<and> status r1 \<in> {429, 403, 402}
               \<and> retry_response w prompt images model = Some r2 \<and> \<not> ok r2"
  from a first_response_Some obtain k where k: "env_GEMINI_API_KEY w = Some k" "k \<noteq> []"
    and r1: "net w (length (sent w)) (makeRequest k (build_parts prompt images) (model_arg model)) = Inr r1"
    by blast
  from a have m: "model_arg model = pro_model"
    and st: "status r1 = 429 \<or> status r1 = 403 \<or> status r1 = 402" by auto
  from a have r2: "net w (Suc (length (sent w))) (makeRequest k (build_parts prompt images) flash_model) = Inr r2"
    by (auto simp: retry_response_eq[OF k(1)] split: sum.splits)
  have "generateImage w prompt images model aspectRatio outputFormat =
          (handle_response flash_model True r2,
           w\<lparr>sent := sent w @ [makeRequest k (build_parts prompt images) pro_model,
                                makeRequest k (build_parts prompt images) flash_model]\<rparr>)"
    by (simp add: generateImage_with_key[OF k] send_retry[OF r1 m st] r2)
  with run have res: "res = handle_response flash_model True r2"
    and w': "w' = w\<lparr>sent := sent w @ [makeRequest k (build_parts prompt images) pro_model,
                                makeRequest k (build_parts prompt images) flash_model]\<rparr>"
    by simp_all
  from res a show "res = Inl (''Gemini API error: '' @ show_nat (status r2) @ '' - '' @ body_text r2)"
    by (simp add: handle_response_def)
  from w' show "length (sent w') = length (sent w) + 2" by simp
qed

theorem generateImage_http_error_witness:
  "generateImage flash_limited_world ''test'' [] (Some flash_model) None None
     = (Inl ''Gemini API error: 429 - Rate limit exceeded'',
        flash_limited_world\<lparr>sent := [makeRequest ''test-api-key'' [TextPart ''test''] flash_model]\<rparr>)
   \<and> fst (generateImage server_error_world ''test'' [] (Some pro_model) None None)
     = Inl ''Gemini API error: 500 - Server error''
   \<and> length (sent (snd (generateImage server_error_world ''test'' [] (Some pro_model) None None))) = 1
   \<and> fst (generateImage retry_failed_world ''test'' [] None None None)
     = Inl ''Gemini API error: 503 - Overloaded''
   \<and> length (sent (snd (generateImage retry_failed_world ''test'' [] None None None))) = 2"
  using generateImage_http_error
          [of flash_limited_world "''test''" "[]" "Some flash_model" None None
              "fst (generateImage flash_limited_world ''test'' [] (Some flash_model) None None)"
              "snd (generateImage flash_limited_world ''test'' [] (Some flash_model) None None)"]
        generateImage_http_error
          [of server_error_world "''test''" "[]" "Some pro_model" None None
              "fst (generateImage server_error_world ''test'' [] (Some pro_model) None None)"
              "snd (generateImage server_error_world ''test'' [] (Some pro_model) None None)"]
        generateImage_http_error
          [of retry_failed_world "''test''" "[]" None None None
              "fst (generateImage retry_failed_world ''test'' [] None None None)"
              "snd (generateImage retry_failed_world ''test'' [] None None None)"]
  by (simp add: fixture_defs run_defs show_nat_examples)

subsection \<open>C6: an error object in a successful response\<close>

text \<open>
  C6. When the response the call ends up with (the first one, or the retry's) has a success
  status and its parsed JSON body has an \<^verbatim>\<open>error\<close> object with message \<open>X\<close>, the call
  fails with \<^verbatim>\<open>Gemini API error: X\<close>.
\<close>

theorem generateImage_payload_error:
  assumes run: "generateImage w prompt images model aspectRatio outputFormat = (res, w')"
    and fin: "final_response w prompt images model = Some response"
    and okr: "ok response"
    and js: "body_json response = Inr d"
    and er: "error d = Some e"
  shows "res = Inl (''Gemini API error: '' @ message e)"
  using generateImage_final[OF run fin] okr js er
  by (auto simp: handle_response_def)

theorem generateImage_payload_error_witness:
  "fst (generateImage error_body_world ''test prompt'' [] None None None)
     = Inl ''Gemini API error: Invalid API key''
   \<and> fst (generateImage retried_error_world ''test prompt'' [] None None None)
     = Inl ''Gemini API error: Invalid API key''"
  using generateImage_payload_error
          [of error_body_world "''test prompt''" "[]" None None None
              "fst (generateImage error_body_world ''test prompt'' [] None None None)"
              "snd (generateImage error_body_world ''test prompt'' [] None None None)"
              "json_response error_body" error_body "\<lparr>message = ''Invalid API key''\<rparr>"]
        generateImage_payload_error
          [of retried_error_world "''test prompt''" "[]" None None None
              "fst (generateImage retried_error_world ''test prompt'' [] None None None)"
              "snd (generateImage retried_error_world ''test prompt'' [] None None None)"
              "json_response error_body" error_body "\<lparr>message = ''Invalid API key''\<rparr>"]
  by (simp add: fixture_defs run_defs)

subsection \<open>C7: failures end at the handler\<close>

text \<open>
  C7. The handler always returns a response. Whenever the body of its \<^verbatim>\<open>try\<close> block fails
  with a message, the response is the single text block \<^verbatim>\<open>Error: <message>\<close> with
  \<open>isError\<close> set. This is so for an unknown tool name, for the first reference image path
  that cannot be read, for a missing credential, for every failure of \<^verbatim>\<open>generateImage\<close>
  (rejected request, HTTP error, error object in the payload, no content), and for a
  rejected file write.
\<close>

theorem handler_catches_failures:
  "(\<forall>m w1. call_tool P w req = (Inl m, w1) \<longrightarrow>
       handler P w req = (\<lparr>content = [TextContent (''Error: '' @ m)], isError = True\<rparr>, w1))
   \<and> (tool_name req \<noteq> ''generate_image'' \<longrightarrow>
       handler P w req =
         (\<lparr>content = [TextContent (''Error: '' @ ''Unknown tool: '' @ tool_name req)],
           isError = True\<rparr>, w))
   \<and> (\<forall>a. tool_name req = ''generate_image'' \<and> arguments req = Some a \<longrightarrow>
        (\<forall>paths i e. arg_imagePaths a = Some paths \<and> i < length paths
             \<and> (\<forall>j < i. \<exists>b. fs w (paths ! j) = Inr b) \<and> fs w (paths ! i) = Inl e \<longrightarrow>
             handler P w req = (\<lparr>content = [TextContent (''Error: '' @ e)], isError = True\<rparr>, w))
      \<and> (\<forall>images. load_images P w (arg_imagePaths a) = Inr images \<longrightarrow>
           (\<not> truthy (env_GEMINI_API_KEY w) \<longrightarrow>
              handler P w req =
                (\<lparr>content = [TextContent (''Error: '' @ ''GEMINI_API_KEY environment variable is not set'')],
                  isError = True\<rparr>, w))
         \<and> (\<forall>m w1. generateImage w (arg_prompt a) images (arg_model a) (arg_aspectRatio a)
                       (arg_outputFormat a) = (Inl m, w1) \<longrightarrow>
              handler P w req = (\<lparr>content = [TextContent (''Error: '' @ m)], isError = True\<rparr>, w1))
         \<and> (\<forall>g w1 d mt path e.
                generateImage w (arg_prompt a) images (arg_model a) (arg_aspectRatio a)
                  (arg_outputFormat a) = (Inr g, w1)
                \<and> imageData g = Some d \<and> mimeType g = Some mt \<and> d \<noteq> [] \<and> mt \<noteq> []
                \<and> arg_outputPath a = Some path \<and> path \<noteq> []
                \<and> write_error w1 path (base64_decode P d) = Some e \<longrightarrow>
              handler P w req = (\<lparr>content = [TextContent (''Error: '' @ e)], isError = True\<rparr>, w1))))"
proof (intro conjI allI impI)
  fix m w1 assume "call_tool P w req = (Inl m, w1)"
  then show "handler P w req = (\<lparr>content = [TextContent (''Error: '' @ m)], isError = True\<rparr>, w1)"
    by (simp add: handler_def)
next
  assume "tool_name req \<noteq> ''generate_image''"
  then show "handler P w req =
         (\<lparr>content = [TextContent (''Error: '' @ ''Unknown tool: '' @ tool_name req)],
           isError = True\<rparr>, w)"
    by (simp add: handler_def call_tool_def)
next
  fix a paths i e
  assume a: "tool_name req = ''generate_image'' \<and> arguments req = Some a"
    and p: "arg_imagePaths a = Some paths \<and> i < length paths
             \<and> (\<forall>j < i. \<exists>b. fs w (paths ! j) = Inr b) \<and> fs w (paths ! i) = Inl e"
  from p have "load_images P w (arg_imagePaths a) = Inl e"
    using load_images_unreadable[of i paths w e P] by simp
  with a show "handler P w req = (\<lparr>content = [TextContent (''Error: '' @ e)], isError = True\<rparr>, w)"
    by (simp add: handler_def call_tool_def)
next
  fix a images
  assume a: "tool_name req = ''generate_image'' \<and> arguments req = Some a"
    and l: "load_images P w (arg_imagePaths a) = Inr images"
    and k: "\<not> truthy (env_GEMINI_API_KEY w)"
  from a l generateImage_no_key[OF k]
  show "handler P w req =
                (\<lparr>content = [TextContent (''Error: '' @ ''GEMINI_API_KEY environment variable is not set'')],
                  isError = True\<rparr>, w)"
    by (simp add: handler_def call_tool_def)
next
  fix a images m w1
  assume a: "tool_name req = ''generate_image'' \<and> arguments req = Some a"
    and l: "load_images P w (arg_imagePaths a) = Inr images"
    and g: "generateImage w (arg_prompt a) images (arg_model a) (arg_aspectRatio a)
                       (arg_outputFormat a) = (Inl m, w1)"
  from a l g show "handler P w req = (\<lparr>content = [TextContent (''Error: '' @ m)], isError = True\<rparr>, w1)"
    by (simp add: handler_def call_tool_def)
next
  fix a images g w1 d mt path e
  assume a: "tool_name req = ''generate_image'' \<and> arguments req = Some a"
    and l: "load_images P w (arg_imagePaths a) = Inr images"
    and g: "generateImage w (arg_prompt a) images (arg_model a) (arg_aspectRatio a)
                  (arg_outputFormat a) = (Inr g, w1)
                \<and> imageData g = Some d \<and> mimeType g = Some mt \<and> d \<noteq> [] \<and> mt \<noteq> []
                \<and> arg_outputPath a = Some path \<and> path \<noteq> []
                \<and> write_error w1 path (base64_decode P d) = Some e"
  from a l g have ct: "call_tool P w req = render P w1 g (Some path)"
    using call_tool_generate[of req a P w images g w1] by simp
  from g have "render P w1 g (Some path) = (Inl e, w1)"
    using render_save[of g d mt path P w1] by simp
  with ct show "handler P w req = (\<lparr>content = [TextContent (''Error: '' @ e)], isError = True\<rparr>, w1)"
    by (simp add: handler_def)
qed

theorem handler_catches_failures_witness:
  "fst (handler test_platform image_world
          (\<lparr>tool_name = ''resize_image'', arguments = None\<rparr>))
     = \<lparr>content = [TextContent ''Error: Unknown tool: resize_image''], isError = True\<rparr>
   \<and> fst (handler test_platform image_world
          (generate_request
             ((prompt_only ''edit'')\<lparr>arg_imagePaths := Some [''/in/a.png'', ''/in/missing.png'']\<rparr>)))
     = \<lparr>content = [TextContent ''Error: ENOENT: no such file''], isError = True\<rparr>
   \<and> fst (handler test_platform (image_world\<lparr>env_GEMINI_API_KEY := None\<rparr>)
          (generate_request (prompt_only ''test prompt'')))
     = \<lparr>content = [TextContent ''Error: GEMINI_API_KEY environment variable is not set''], isError = True\<rparr>
   \<and> fst (handler test_platform bad_request_world
          (generate_request (prompt_only ''test prompt'')))
     = \<lparr>content = [TextContent ''Error: Gemini API error: 400 - Bad request''], isError = True\<rparr>
   \<and> fst (handler test_platform error_body_world
          (generate_request (prompt_only ''test prompt'')))
     = \<lparr>content = [TextContent ''Error: Gemini API error: Invalid API key''], isError = True\<rparr>
   \<and> fst (handler test_platform empty_parts_world
          (generate_request (prompt_only ''test prompt'')))
     = \<lparr>content = [TextContent ''Error: No content generated''], isError = True\<rparr>
   \<and> fst (handler test_platform image_world
          (generate_request
             ((prompt_only ''A sunset'')\<lparr>arg_outputPath := Some ''/readonly/out.png''\<rparr>)))
     = \<lparr>content = [TextContent ''Error: EACCES: permission denied''], isError = True\<rparr>"
  using handler_catches_failures
          [of test_platform "image_world"
              "\<lparr>tool_name = ''resize_image'', arguments = None\<rparr>"]
        handler_catches_failures
          [of test_platform "image_world"
              "generate_request
             ((prompt_only ''edit'')\<lparr>arg_imagePaths := Some [''/in/a.png'', ''/in/missing.png'']\<rparr>)"]
        handler_catches_failures
          [of test_platform "image_world\<lparr>env_GEMINI_API_KEY := None\<rparr>"
              "generate_request (prompt_only ''test prompt'')"]
        handler_catches_failures
          [of test_platform "bad_request_world"
              "generate_request (prompt_only ''test prompt'')"]
        handler_catches_failures
          [of test_platform "error_body_world"
              "generate_request (prompt_only ''test prompt'')"]
        handler_catches_failures
          [of test_platform "empty_parts_world"
              "generate_request (prompt_only ''test prompt'')"]
        handler_catches_failures
          [of test_platform "image_world"
              "generate_request
             ((prompt_only ''A sunset'')\<lparr>arg_outputPath := Some ''/readonly/out.png''\<rparr>)"]
  by (simp add: handler_defs fixture_defs run_defs show_nat_examples)

subsection \<open>C8: the content of a successful invocation\<close>

text \<open>
  C8, as the code has it. For every successful \<^verbatim>\<open>generate_image\<close> invocation the content
  starts with a text block \<^verbatim>\<open>Model used: <modelUsed>\<close>, followed by the note
  \<^verbatim>\<open>(fallback from gemini-3-pro-image-preview due to quota/rate limit)\<close> when a fallback
  occurred, followed by an empty line and the result text when there is one. When the
  result's image data and mime type are non-empty strings and a non-empty
  \<^verbatim>\<open>outputPath\<close> was given, the decoded data is written to that path and the second and
  last block is the text \<^verbatim>\<open>Image saved to: <path>\<close>; when they are non-empty and
  \<^verbatim>\<open>outputPath\<close> is missing or the empty string, nothing is written and the second and
  last block is an image block with the data and the mime type.
\<close>

theorem handler_success_content:
  assumes name: "tool_name req = ''generate_image''" and args: "arguments req = Some a"
    and load: "load_images P w (arg_imagePaths a) = Inr images"
    and gen: "generateImage w (arg_prompt a) images (arg_model a) (arg_aspectRatio a)
                (arg_outputFormat a) = (Inr g, w1)"
    and run: "handler P w req = (resp, w')"
    and succ: "\<not> isError resp"
  shows "hd (content resp) =
           TextContent
             (''Model used: '' @ modelUsed g
                @ (if fallback g
                   then '' (fallback from gemini-3-pro-image-preview due to quota/rate limit)''
                   else [])
                @ (case result_text g of None \<Rightarrow> [] | Some t \<Rightarrow> [CHR 0x0A, CHR 0x0A] @ t))
       \<and> (\<forall>d m path.
             imageData g = Some d \<and> mimeType g = Some m \<and> d \<noteq> [] \<and> m \<noteq> []
             \<and> arg_outputPath a = Some path \<and> path \<noteq> [] \<longrightarrow>
             content resp = [hd (content resp), TextContent (''Image saved to: '' @ path)]
             \<and> written w' = written w @ [(path, base64_decode P d)]
             \<and> fs w' = (fs w)(path := Inr (base64_decode P d)))
       \<and> (\<forall>d m.
             imageData g = Some d \<and> mimeType g = Some m \<and> d \<noteq> [] \<and> m \<noteq> []
             \<and> \<not> truthy (arg_outputPath a) \<longrightarrow>
             content resp = [hd (content resp), ImageContent d m]
             \<and> written w' = written w \<and> fs w' = fs w)"
proof -
  note ct = call_tool_generate[OF name args load gen]
  note fr = generateImage_frame[OF gen]
  note st = statusText_eq[OF generateImage_text_nonempty[OF gen]]
  have hd: "hd (content resp) = TextContent (statusText g)"
    using run succ
    by (auto simp: handler_def ct render_def Let_def writeFile_def
             split: option.splits if_splits prod.splits sum.splits)
  have save: "content resp = [hd (content resp), TextContent (''Image saved to: '' @ path)]
             \<and> written w' = written w @ [(path, base64_decode P d)]
             \<and> fs w' = (fs w)(path := Inr (base64_decode P d))"
    if "imageData g = Some d \<and> mimeType g = Some m \<and> d \<noteq> [] \<and> m \<noteq> []
             \<and> arg_outputPath a = Some path \<and> path \<noteq> []" for d m path
  proof -
    from that have r: "render P w1 g (arg_outputPath a) =
       (case write_error w1 path (base64_decode P d) of
        Some e \<Rightarrow> (Inl e, w1)
      | None \<Rightarrow>
          (Inr [TextContent (statusText g), TextContent (''Image saved to: '' @ path)],
           w1\<lparr>fs := (fs w1)(path := Inr (base64_decode P d)),
               written := written w1 @ [(path, base64_decode P d)]\<rparr>))"
      using render_save[of g d m path P w1] by simp
    from run succ fr show ?thesis
      by (auto simp: handler_def ct r split: option.splits)
  qed
  have inline: "content resp = [hd (content resp), ImageContent d m]
             \<and> written w' = written w \<and> fs w' = fs w"
    if "imageData g = Some d \<and> mimeType g = Some m \<and> d \<noteq> [] \<and> m \<noteq> []
             \<and> \<not> truthy (arg_outputPath a)" for d m
  proof -
    from that have r: "render P w1 g (arg_outputPath a)
        = (Inr [TextContent (statusText g), ImageContent d m], w1)"
      using render_inline[of g d m "arg_outputPath a" P w1] by simp
    from run fr show ?thesis by (auto simp: handler_def ct r)
  qed
  from hd st save inline show ?thesis by metis
qed

theorem handler_success_content_witness:
  "fst (handler test_platform image_world (generate_request save_args))
     = \<lparr>content = [TextContent image_status, TextContent ''Image saved to: /out/result.png''],
         isError = False\<rparr>
   \<and> written (snd (handler test_platform image_world (generate_request save_args)))
     = [(''/out/result.png'', [0x66, 0x61, 0x6B, 0x65])]
   \<and> fst (handler test_platform image_world (generate_request sunset_args))
     = \<lparr>content = [TextContent image_status, ImageContent ''base64imagedata'' ''image/png''],
         isError = False\<rparr>
   \<and> written (snd (handler test_platform image_world (generate_request sunset_args))) = []"
  using handler_success_content
          [where req = "generate_request save_args" and a = save_args
             and P = test_platform and w = image_world
             and images = "[loaded_image, loaded_image]" and g = image_result
             and ?w1.0 = "image_world
                            \<lparr>sent := [makeRequest ''test-api-key''
                                        (build_parts ''Put these glasses on this face''
                                           [loaded_image, loaded_image])
                                        pro_model]\<rparr>"
             and resp = "fst (handler test_platform image_world (generate_request save_args))"
             and w' = "snd (handler test_platform image_world (generate_request save_args))"]
        handler_success_content
          [where req = "generate_request sunset_args" and a = sunset_args
             and P = test_platform and w = image_world
             and images = "[]" and g = image_result
             and ?w1.0 = "image_world
                            \<lparr>sent := [makeRequest ''test-api-key''
                                        (build_parts ''A sunset over mountains'' []) pro_model]\<rparr>"
             and resp = "fst (handler test_platform image_world (generate_request sunset_args))"
             and w' = "snd (handler test_platform image_world (generate_request sunset_args))"]
  by (simp add: handler_defs fixture_defs run_defs)

text \<open>
  The claim as stated writes the file whenever image data is present and an output path was
  supplied, and appends an image block whenever image data is present and no path was
  supplied. With the output path \<^verbatim>\<open>""\<close> supplied nothing is written and the image comes
  back inline; with an \<^verbatim>\<open>inlineData\<close> whose data is \<^verbatim>\<open>""\<close> the content is the status block
  alone.
\<close>

theorem handler_empty_strings_counterexample:
  "fst (handler test_platform image_world
          (generate_request (sunset_args\<lparr>arg_outputPath := Some []\<rparr>)))
     = \<lparr>content = [TextContent image_status, ImageContent ''base64imagedata'' ''image/png''],
         isError = False\<rparr>
   \<and> written (snd (handler test_platform image_world
                      (generate_request (sunset_args\<lparr>arg_outputPath := Some []\<rparr>)))) = []
   \<and> fst (generateImage empty_data_world ''A sunset over mountains'' [] None None None)
     = Inr \<lparr>result_text = None, imageData = Some [], mimeType = Some ''image/png'',
            modelUsed = pro_model, fallback = False\<rparr>
   \<and> fst (handler test_platform empty_data_world (generate_request sunset_args))
     = \<lparr>content = [TextContent ''Model used: gemini-3-pro-image-preview''], isError = False\<rparr>"
  by (simp add: handler_defs fixture_defs run_defs)

subsection \<open>C9: what the outbound request is made of\<close>

text \<open>
  C9. The \<^verbatim>\<open>aspectRatio\<close> and \<^verbatim>\<open>outputFormat\<close> arguments change nothing: neither the
  result nor the requests. Without a credential a call issues no request. With one, the
  requests of a call are either exactly one, or, when the call runs with the pro model,
  possibly exactly two. The first is posted to
  \<^verbatim>\<open>https://generativelanguage.googleapis.com/v1beta/models/<model>:generateContent\<close> for
  the model the call runs with, the second to the same address for
  \<^verbatim>\<open>gemini-2.5-flash-image\<close>. Each is a POST whose headers are the content type and
  \<^verbatim>\<open>x-goog-api-key\<close> with the credential, and whose body holds only the constructed parts
  list and the fixed generation config asking for \<^verbatim>\<open>TEXT\<close> and \<^verbatim>\<open>IMAGE\<close>; the model
  appears in the URL and nowhere else.
\<close>

theorem generateImage_ignores_aspect_and_format:
  "generateImage w prompt images model aspectRatio outputFormat
     = generateImage w prompt images model aspectRatio' outputFormat'
   \<and> (\<not> truthy (env_GEMINI_API_KEY w) \<longrightarrow>
        sent (snd (generateImage w prompt images model aspectRatio outputFormat)) = sent w)
   \<and> (\<forall>apiKey. env_GEMINI_API_KEY w = Some apiKey \<and> apiKey \<noteq> [] \<longrightarrow>
        sent (snd (generateImage w prompt images model aspectRatio outputFormat))
          = sent w @
            [\<lparr>url = ''https://generativelanguage.googleapis.com/v1beta/models'' @ ''/''
                      @ model_arg model @ '':generateContent'',
              http_method = ''POST'',
              headers = [(''Content-Type'', ''application/json''), (''x-goog-api-key'', apiKey)],
              body = \<lparr>contents = [\<lparr>parts = build_parts prompt images\<rparr>],
                      generationConfig = \<lparr>responseModalities = [''TEXT'', ''IMAGE'']\<rparr>\<rparr>\<rparr>]
        \<or> (model_arg model = ''gemini-3-pro-image-preview''
           \<and> sent (snd (generateImage w prompt images model aspectRatio outputFormat))
               = sent w @
                 [\<lparr>url = ''https://generativelanguage.googleapis.com/v1beta/models'' @ ''/''
                           @ ''gemini-3-pro-image-preview'' @ '':generateContent'',
                   http_method = ''POST'',
                   headers = [(''Content-Type'', ''application/json''),
                              (''x-goog-api-key'', apiKey)],
                   body = \<lparr>contents = [\<lparr>parts = build_parts prompt images\<rparr>],
                           generationConfig = \<lparr>responseModalities = [''TEXT'', ''IMAGE'']\<rparr>\<rparr>\<rparr>,
                  \<lparr>url = ''https://generativelanguage.googleapis.com/v1beta/models'' @ ''/''
                           @ ''gemini-2.5-flash-image'' @ '':generateContent'',
                   http_method = ''POST'',
                   headers = [(''Content-Type'', ''application/json''),
                              (''x-goog-api-key'', apiKey)],
                   body = \<lparr>contents = [\<lparr>parts = build_parts prompt images\<rparr>],
                           generationConfig = \<lparr>responseModalities = [''TEXT'', ''IMAGE'']\<rparr>\<rparr>\<rparr>]))"
proof (intro conjI allI impI)
  show "generateImage w prompt images model aspectRatio outputFormat
     = generateImage w prompt images model aspectRatio' outputFormat'"
    by (simp add: generateImage_def)
  show "sent (snd (generateImage w prompt images model aspectRatio outputFormat)) = sent w"
    if "\<not> truthy (env_GEMINI_API_KEY w)"
    using that by (simp add: generateImage_no_key)
next
  fix apiKey
  assume k: "env_GEMINI_API_KEY w = Some apiKey \<and> apiKey \<noteq> []"
  then have k1: "env_GEMINI_API_KEY w = Some apiKey" and k2: "apiKey \<noteq> []" by auto
  from generateImage_sent_exact[OF k1 k2, of prompt images model aspectRatio outputFormat]
  show "sent (snd (generateImage w prompt images model aspectRatio outputFormat))
          = sent w @
            [\<lparr>url = ''https://generativelanguage.googleapis.com/v1beta/models'' @ ''/''
                      @ model_arg model @ '':generateContent'',
              http_method = ''POST'',
              headers = [(''Content-Type'', ''application/json''), (''x-goog-api-key'', apiKey)],
              body = \<lparr>contents = [\<lparr>parts = build_parts prompt images\<rparr>],
                      generationConfig = \<lparr>responseModalities = [''TEXT'', ''IMAGE'']\<rparr>\<rparr>\<rparr>]
        \<or> (model_arg model = ''gemini-3-pro-image-preview''
           \<and> sent (snd (generateImage w prompt images model aspectRatio outputFormat))
               = sent w @
                 [\<lparr>url = ''https://generativelanguage.googleapis.com/v1beta/models'' @ ''/''
                           @ ''gemini-3-pro-image-preview'' @ '':generateContent'',
                   http_method = ''POST'',
                   headers = [(''Content-Type'', ''application/json''),
                              (''x-goog-api-key'', apiKey)],
                   body = \<lparr>contents = [\<lparr>parts = build_parts prompt images\<rparr>],
                           generationConfig = \<lparr>responseModalities = [''TEXT'', ''IMAGE'']\<rparr>\<rparr>\<rparr>,
                  \<lparr>url = ''https://generativelanguage.googleapis.com/v1beta/models'' @ ''/''
                           @ ''gemini-2.5-flash-image'' @ '':generateContent'',
                   http_method = ''POST'',
                   headers = [(''Content-Type'', ''application/json''),
                              (''x-goog-api-key'', apiKey)],
                   body = \<lparr>contents = [\<lparr>parts = build_parts prompt images\<rparr>],
                           generationConfig = \<lparr>responseModalities = [''TEXT'', ''IMAGE'']\<rparr>\<rparr>\<rparr>])"
    unfolding makeRequest_def GEMINI_API_URL_def pro_model_def flash_model_def by simp
qed


theorem generateImage_ignores_aspect_and_format_witness:
  "generateImage text_world ''test'' [] (Some flash_model) (Some ''16:9'') (Some ''jpeg'')
     = generateImage text_world ''test'' [] (Some flash_model) None None
   \<and> sent (snd (generateImage text_world ''test'' [] (Some flash_model)
                    (Some ''16:9'') (Some ''jpeg'')))
     = [\<lparr>url = ''https://generativelanguage.googleapis.com/v1beta/models/gemini-2.5-flash-image:generateContent'',
         http_method = ''POST'',
         headers = [(''Content-Type'', ''application/json''), (''x-goog-api-key'', ''test-api-key'')],
         body = \<lparr>contents = [\<lparr>parts = [TextPart ''test'']\<rparr>],
                 generationConfig = \<lparr>responseModalities = [''TEXT'', ''IMAGE'']\<rparr>\<rparr>\<rparr>]
   \<and> map url (sent (snd (generateImage text_world ''test'' [] None (Some ''1:1'') (Some ''png''))))
     = [''https://generativelanguage.googleapis.com/v1beta/models/gemini-3-pro-image-preview:generateContent'']
   \<and> map url (sent (snd (generateImage fallback_world ''test'' [] None None None)))
     = [''https://generativelanguage.googleapis.com/v1beta/models/gemini-3-pro-image-preview:generateContent'',
        ''https://generativelanguage.googleapis.com/v1beta/models/gemini-2.5-flash-image:generateContent'']
   \<and> sent (snd (generateImage (text_world\<lparr>env_GEMINI_API_KEY := None\<rparr>) ''test'' []
                    None None None)) = []"
  using generateImage_ignores_aspect_and_format
          [of text_world "''test''" "[]" "Some flash_model" "Some ''16:9''" "Some ''jpeg''" None None]
        generateImage_ignores_aspect_and_format
          [of text_world "''test''" "[]" None "Some ''1:1''" "Some ''png''" None None]
        generateImage_ignores_aspect_and_format
          [of fallback_world "''test''" "[]" None None None "Some ''16:9''" "Some ''jpeg''"]
        generateImage_ignores_aspect_and_format
          [of "text_world\<lparr>env_GEMINI_API_KEY := None\<rparr>" "''test''" "[]" None None None
              None None]
  by (simp add: fixture_defs run_defs makeRequest_def GEMINI_API_URL_def)

subsection \<open>C10: no image, no write\<close>

text \<open>
  C10. When the generation result has no image data or no mime type, the invocation
  returns exactly one text block, the status block, without the error flag, whatever
  \<^verbatim>\<open>outputPath\<close> is; no file is written and the file system is as it was.
\<close>

theorem handler_no_image_no_write:
  assumes name: "tool_name req = ''generate_image''" and args: "arguments req = Some a"
    and load: "load_images P w (arg_imagePaths a) = Inr images"
    and gen: "generateImage w (arg_prompt a) images (arg_model a) (arg_aspectRatio a)
                (arg_outputFormat a) = (Inr g, w1)"
    and noimg: "imageData g = None \<or> mimeType g = None"
  shows "handler P w req = (\<lparr>content = [TextContent (statusText g)], isError = False\<rparr>, w1)
       \<and> written w1 = written w \<and> fs w1 = fs w"
  using generateImage_frame[OF gen]
  by (simp add: handler_def call_tool_generate[OF name args load gen] render_no_image[OF noimg])


theorem handler_no_image_no_write_witness:
  "fst (handler test_platform text_world
          (generate_request ((prompt_only ''Describe a sunset'')
                               \<lparr>arg_outputPath := Some ''/out/result.png''\<rparr>)))
     = \<lparr>content = [TextContent (''Model used: gemini-3-pro-image-preview''
                                   @ [CHR 0x0A, CHR 0x0A] @ ''Only text response'')],
         isError = False\<rparr>
   \<and> written (snd (handler test_platform text_world
                      (generate_request ((prompt_only ''Describe a sunset'')
                                           \<lparr>arg_outputPath := Some ''/out/result.png''\<rparr>)))) = []"
  using handler_no_image_no_write
          [where req = "generate_request ((prompt_only ''Describe a sunset'')
                                            \<lparr>arg_outputPath := Some ''/out/result.png''\<rparr>)"
             and a = "(prompt_only ''Describe a sunset'')\<lparr>arg_outputPath := Some ''/out/result.png''\<rparr>"
             and P = test_platform and w = text_world and images = "[]" and g = text_result
             and ?w1.0 = "text_world
                            \<lparr>sent := [makeRequest ''test-api-key''
                                        (build_parts ''Describe a sunset'' []) pro_model]\<rparr>"]
  by (simp add: handler_defs fixture_defs run_defs)


end
